theory Spec2Isabelle
  imports Main "HOL-Library.Word"
begin

section \<open>Conditions\<close>

text \<open>
  \<^verbatim>\<open>metav1.Condition\<close>: the fields of the struct that the controllers set or that
  \<^verbatim>\<open>meta.SetStatusCondition\<close> touches. \<^verbatim>\<open>Type\<close> and \<^verbatim>\<open>Status\<close> are Go string types; the
  status constants are \<^verbatim>\<open>"True"\<close>, \<^verbatim>\<open>"False"\<close> and \<^verbatim>\<open>"Unknown"\<close>. A time is a natural
  number, \<open>0\<close> being the zero time (\<^verbatim>\<open>IsZero\<close>). A field that a struct literal leaves out
  has Go's zero value: \<open>0\<close>, the empty string.
\<close>

type_synonym Time = nat

record Condition =
  Type :: string
  Status :: string
  ObservedGeneration :: "64 word"
  LastTransitionTime :: Time
  Reason :: string
  Message :: string

definition ConditionTrue :: string where
  "ConditionTrue = ''True''"

definition ConditionFalse :: string where
  "ConditionFalse = ''False''"

definition ConditionUnknown :: string where
  "ConditionUnknown = ''Unknown''"

definition statusSyncConditionType :: string where
  "statusSyncConditionType = ''StatusSynced''"

definition resourceAvailableConditionType :: string where
  "resourceAvailableConditionType = ''Available''"

text \<open>
  \<^verbatim>\<open>fmt.Sprintf("%d", n)\<close> for a count: the decimal digits of a natural number. The
  counters of the source are Go \<^verbatim>\<open>int\<close>s that count elements of slices held in memory, so
  they stay far below \<open>2^63\<close> and are modelled as \<open>nat\<close>.
\<close>

fun itoa :: "nat \<Rightarrow> string" where
  "itoa n = (if n < 10 then [''0123456789'' ! n]
             else itoa (n div 10) @ [''0123456789'' ! (n mod 10)])"

declare itoa.simps [simp del]

section \<open>The API types of the status-sync controller\<close>

text \<open>
  \<^verbatim>\<open>ManifestCondition\<close>: the identifier, the conditions and the synced values
  (\<^verbatim>\<open>StatusSync.Values\<close>, in the feedback variant \<^verbatim>\<open>StatusFeedbacks.Values\<close>). The type
  of a value is a parameter: \<^verbatim>\<open>SyncValue\<close> for the polling controller,
  \<^verbatim>\<open>FeedbackValue\<close> for the reconciler.
\<close>

record ResourceIdentifier =
  Ordinal :: int
  Group :: string
  Version :: string
  Kind :: string
  Resource :: string
  Namespace :: string
  Name :: string

record 'v ManifestCondition =
  Identifier :: ResourceIdentifier
  Conditions :: "Condition list"
  Values :: "'v list"

section \<open>aggregateManifestConditions\<close>

text \<open>
  The three counters \<^verbatim>\<open>available, unavailable, unknown\<close> as a triple. The inner loop
  skips a condition whose type is not \<^verbatim>\<open>"Available"\<close>; the \<^verbatim>\<open>switch\<close> on the status has no
  default branch, so any other status string counts nowhere.
\<close>

fun countCondition :: "Condition \<Rightarrow> nat \<times> nat \<times> nat \<Rightarrow> nat \<times> nat \<times> nat" where
  "countCondition condition (available, unavailable, unknown) =
     (if Type condition \<noteq> resourceAvailableConditionType then (available, unavailable, unknown)
      else if Status condition = ConditionTrue then (available + 1, unavailable, unknown)
      else if Status condition = ConditionFalse then (available, unavailable + 1, unknown)
      else if Status condition = ConditionUnknown then (available, unavailable, unknown + 1)
      else (available, unavailable, unknown))"

definition countManifests :: "('v, 'z) ManifestCondition_scheme list \<Rightarrow> nat \<times> nat \<times> nat" where
  "countManifests manifests =
     fold (\<lambda>manifest acc. fold countCondition (Conditions manifest) acc) manifests (0, 0, 0)"

definition aggregateManifestConditions ::
  "64 word \<Rightarrow> ('v, 'z) ManifestCondition_scheme list \<Rightarrow> Condition" where
  "aggregateManifestConditions generation manifests =
     (case countManifests manifests of (available, unavailable, unknown) \<Rightarrow>
        if unavailable > 0 then
          \<lparr>Type = resourceAvailableConditionType, Status = ConditionFalse,
           ObservedGeneration = generation, LastTransitionTime = 0,
           Reason = ''ResourcesNotAvailable'',
           Message = itoa unavailable @ '' of '' @ itoa (length manifests)
                     @ '' resources are not available''\<rparr>
        else if unknown > 0 then
          \<lparr>Type = resourceAvailableConditionType, Status = ConditionUnknown,
           ObservedGeneration = generation, LastTransitionTime = 0,
           Reason = ''ResourcesStatusUnknown'',
           Message = itoa unknown @ '' of '' @ itoa (length manifests)
                     @ '' resources have unknown status''\<rparr>
        else if available = 0 then
          \<lparr>Type = resourceAvailableConditionType, Status = ConditionUnknown,
           ObservedGeneration = generation, LastTransitionTime = 0,
           Reason = ''ResourcesStatusUnknown'',
           Message = ''cannot get any available resource''\<rparr>
        else
          \<lparr>Type = resourceAvailableConditionType, Status = ConditionTrue,
           ObservedGeneration = generation, LastTransitionTime = 0,
           Reason = ''ResourcesAvailable'',
           Message = ''All resources are available''\<rparr>)"

section \<open>Errors and the library's functions\<close>

text \<open>
  A Go \<^verbatim>\<open>error\<close> value. \<open>Errorf\<close> is an error made by \<^verbatim>\<open>fmt.Errorf\<close> with the text it
  was given. \<open>External\<close> is an error returned by a collaborator (the REST mapping, the
  dynamic client, the JSON path library): it records whether \<^verbatim>\<open>errors.IsNotFound\<close> holds
  of it, and a text that identifies it. \<open>Aggregate\<close> is what \<^verbatim>\<open>utilerrors.NewAggregate\<close>
  makes of a non-empty list. A nil error is \<open>None\<close> of \<open>error option\<close>.
\<close>

datatype error =
    Errorf string
  | External bool string
  | Aggregate "error list"

fun IsNotFound :: "error option \<Rightarrow> bool" where
  "IsNotFound (Some (External notFound _)) = notFound"
| "IsNotFound _ = False"

text \<open>
  \<^verbatim>\<open>utilerrors.NewAggregate\<close>: nil for the empty list, the aggregate otherwise (the lists
  built here hold no nil error).
\<close>

definition NewAggregate :: "error list \<Rightarrow> error option" where
  "NewAggregate errlist = (if errlist = [] then None else Some (Aggregate errlist))"

text \<open>
  A value of Go's \<^verbatim>\<open>interface{}\<close>. The unstructured content of an object holds nil,
  \<^verbatim>\<open>int64\<close>, \<^verbatim>\<open>float64\<close> (its 64 bits), \<^verbatim>\<open>string\<close>, \<^verbatim>\<open>bool\<close>,
  \<^verbatim>\<open>map[string]interface{}\<close> and \<^verbatim>\<open>[]interface{}\<close>; \<open>DOther\<close> is a value of any other
  type (a struct, an \<^verbatim>\<open>int32\<close>), by the name of its type.
\<close>

datatype dynamic =
    DNil
  | DInt64 "64 word"
  | DFloat64 "64 word"
  | DString string
  | DBool bool
  | DMap "(string \<times> dynamic) list"
  | DSlice "dynamic list"
  | DOther string

record GroupVersionKind =
  gvkGroup :: string
  gvkVersion :: string
  gvkKind :: string

text \<open>
  \<^verbatim>\<open>unstructured.Unstructured\<close>, by what the controllers read of it:
  \<^verbatim>\<open>GroupVersionKind()\<close>, \<^verbatim>\<open>GetNamespace()\<close>, \<^verbatim>\<open>GetName()\<close> and \<^verbatim>\<open>UnstructuredContent()\<close>.
\<close>

record Unstructured =
  objGroupVersionKind :: GroupVersionKind
  objNamespace :: string
  objName :: string
  objContent :: dynamic

text \<open>
  The functions of other packages that the code calls and whose results it only passes
  on: the text \<^verbatim>\<open>%v\<close> prints for an error, \<^verbatim>\<open>GroupVersionKind.String()\<close>, the text
  \<^verbatim>\<open>%v\<close> prints for \<^verbatim>\<open>reflect.TypeOf(value)\<close>, and the JSON path library with missing
  keys allowed: \<^verbatim>\<open>Parse\<close> of a template (nil or an error) and \<^verbatim>\<open>FindResults\<close> of the
  parsed template on a content. They are parameters of the model.
\<close>

record Library =
  errorString :: "error \<Rightarrow> string"
  gvkString :: "GroupVersionKind \<Rightarrow> string"
  typeString :: "dynamic \<Rightarrow> string"
  jsonpathParse :: "string \<Rightarrow> error option"
  jsonpathFindResults :: "string \<Rightarrow> dynamic \<Rightarrow> error + dynamic list list"

text \<open>
  \<^verbatim>\<open>meta.SetStatusCondition\<close>, a function of the library. The first condition of the new
  condition's type is updated in place: a changed status is taken over and sets the
  transition time, to the new condition's when that is not zero and to the current time
  otherwise; the reason, the message and the observed generation are taken over in any
  case. When there is no condition of that type, the new condition is appended, its zero
  transition time replaced by the current time. \<open>now\<close> is the reading of \<^verbatim>\<open>time.Now()\<close>
  in the call.
\<close>

definition updateCondition :: "Condition \<Rightarrow> Condition \<Rightarrow> Time \<Rightarrow> Condition" where
  "updateCondition existingCondition newCondition now =
     (let changed =
        (if Status existingCondition \<noteq> Status newCondition then
           existingCondition\<lparr>Status := Status newCondition,
             LastTransitionTime :=
               (if LastTransitionTime newCondition \<noteq> 0 then LastTransitionTime newCondition
                else now)\<rparr>
         else existingCondition)
      in changed\<lparr>Reason := Reason newCondition, Message := Message newCondition,
           ObservedGeneration := ObservedGeneration newCondition\<rparr>)"

fun SetStatusCondition :: "Condition list \<Rightarrow> Condition \<Rightarrow> Time \<Rightarrow> Condition list" where
  "SetStatusCondition [] newCondition now =
     [if LastTransitionTime newCondition = 0 then newCondition\<lparr>LastTransitionTime := now\<rparr>
      else newCondition]"
| "SetStatusCondition (c # conditions) newCondition now =
     (if Type c = Type newCondition then updateCondition c newCondition now # conditions
      else c # SetStatusCondition conditions newCondition now)"

section \<open>Status feedback: values, rules and the value extractor\<close>

text \<open>
  \<^verbatim>\<open>FieldValue\<close>, \<^verbatim>\<open>FeedbackValue\<close>, \<^verbatim>\<open>JsonPath\<close> and \<^verbatim>\<open>StatusFeedbackRule\<close>. A pointer
  field is an option. \<^verbatim>\<open>ValueType\<close> and \<^verbatim>\<open>FeedBackType\<close> are Go string types. The fields
  \<^verbatim>\<open>Type\<close>, \<^verbatim>\<open>Name\<close>, \<^verbatim>\<open>Version\<close> and their neighbours carry the prefix of their
  struct here, since a condition and a resource identifier have fields of these names.
\<close>

definition Integer :: string where
  "Integer = ''Integer''"

definition String :: string where
  "String = ''String''"

definition Boolean :: string where
  "Boolean = ''Boolean''"

record FieldValue =
  fvType :: string
  fvInteger :: "64 word option"
  fvString :: "string option"
  fvBoolean :: "bool option"

record FeedbackValue =
  fbName :: string
  fbValue :: FieldValue

definition CommonFieldsType :: string where
  "CommonFieldsType = ''CommonFields''"

definition JSONPathsType :: string where
  "JSONPathsType = ''JSONPaths''"

record JsonPath =
  jpName :: string
  jpVersion :: string
  jpPath :: string

record StatusFeedbackRule =
  ruleType :: string
  ruleJsonPaths :: "JsonPath list"

text \<open>
  \<^verbatim>\<open>getValueByJsonPath\<close>. The result is \<open>Inl err\<close> for \<^verbatim>\<open>(nil, err)\<close>, \<open>Inr None\<close> for
  \<^verbatim>\<open>(nil, nil)\<close> and \<open>Inr (Some v)\<close> for \<^verbatim>\<open>(&v, nil)\<close>.
\<close>

definition getValueByJsonPath ::
  "Library \<Rightarrow> string \<Rightarrow> string \<Rightarrow> Unstructured \<Rightarrow> error + FeedbackValue option" where
  "getValueByJsonPath L name path obj =
     (case jsonpathParse L (''{'' @ path @ ''}'') of
        Some err \<Rightarrow>
          Inl (Errorf (''failed to parse json path '' @ path @ '' of '' @ name
                       @ '' with error: '' @ errorString L err))
      | None \<Rightarrow>
          (case jsonpathFindResults L (''{'' @ path @ ''}'') (objContent obj) of
             Inl err \<Rightarrow>
               Inl (Errorf (''failed to find value for '' @ name @ '' with error: ''
                            @ errorString L err))
           | Inr results \<Rightarrow>
               if length results = 0 \<or> length (results ! 0) = 0 then Inr None
               else
                 (case results ! 0 ! 0 of
                    DNil \<Rightarrow> Inr None
                  | DInt64 t \<Rightarrow>
                      Inr (Some \<lparr>fbName = name,
                        fbValue = \<lparr>fvType = Integer, fvInteger = Some t, fvString = None,
                                   fvBoolean = None\<rparr>\<rparr>)
                  | DString t \<Rightarrow>
                      Inr (Some \<lparr>fbName = name,
                        fbValue = \<lparr>fvType = String, fvInteger = None, fvString = Some t,
                                   fvBoolean = None\<rparr>\<rparr>)
                  | DBool t \<Rightarrow>
                      Inr (Some \<lparr>fbName = name,
                        fbValue = \<lparr>fvType = Boolean, fvInteger = None, fvString = None,
                                   fvBoolean = Some t\<rparr>\<rparr>)
                  | v \<Rightarrow>
                      Inl (Errorf (''the type '' @ typeString L v @ '' of the value for ''
                                   @ name @ '' is not found'')))))"

section \<open>The built-in rules and GetValuesByRule\<close>

definition deploymentRule :: "JsonPath list" where
  "deploymentRule =
     [\<lparr>jpName = ''ReadyReplicas'', jpVersion = [], jpPath = ''.status.readyReplicas''\<rparr>,
      \<lparr>jpName = ''Replicas'', jpVersion = [], jpPath = ''.status.replicas''\<rparr>,
      \<lparr>jpName = ''AvailableReplicas'', jpVersion = [],
       jpPath = ''.status.availableReplicas''\<rparr>]"

definition jobRule :: "JsonPath list" where
  "jobRule =
     [\<lparr>jpName = ''JobComplete'', jpVersion = [],
       jpPath = ''.status.conditions[?(@.type==\"Complete\")].status''\<rparr>,
      \<lparr>jpName = ''JobSucceeded'', jpVersion = [], jpPath = ''.status.succeeded''\<rparr>]"

definition podRule :: "JsonPath list" where
  "podRule =
     [\<lparr>jpName = ''PodReady'', jpVersion = [],
       jpPath = ''.status.conditions[?(@.type==\"Ready\")].status''\<rparr>,
      \<lparr>jpName = ''PodPhase'', jpVersion = [], jpPath = ''.status.phase''\<rparr>]"

text \<open>
  \<^verbatim>\<open>DefaultCommonFieldsStatusRule\<close>: the map literal as an association list (its three
  keys differ). \<^verbatim>\<open>GetPathsByKind\<close> is Go's map lookup: a missing key gives the nil slice,
  which has length 0.
\<close>

definition DefaultCommonFieldsStatusRule :: "(GroupVersionKind \<times> JsonPath list) list" where
  "DefaultCommonFieldsStatusRule =
     [(\<lparr>gvkGroup = ''apps'', gvkVersion = ''v1'', gvkKind = ''Deployment''\<rparr>, deploymentRule),
      (\<lparr>gvkGroup = ''batch'', gvkVersion = ''v1'', gvkKind = ''Job''\<rparr>, jobRule),
      (\<lparr>gvkGroup = [], gvkVersion = ''v1'', gvkKind = ''Pod''\<rparr>, podRule)]"

definition GetPathsByKind ::
  "(GroupVersionKind \<times> JsonPath list) list \<Rightarrow> GroupVersionKind \<Rightarrow> JsonPath list" where
  "GetPathsByKind rules gvk = (case map_of rules gvk of None \<Rightarrow> [] | Some paths \<Rightarrow> paths)"

text \<open>
  \<^verbatim>\<open>StatusReader\<close> holds the resolver of the common fields, an interface with the one
  method \<^verbatim>\<open>GetPathsByKind\<close>.
\<close>

record StatusReader =
  CommonFieldsStatus :: "GroupVersionKind \<Rightarrow> JsonPath list"

definition NewStatusReader :: StatusReader where
  "NewStatusReader = \<lparr>CommonFieldsStatus = GetPathsByKind DefaultCommonFieldsStatusRule\<rparr>"

text \<open>
  The bodies of the two loops of \<^verbatim>\<open>GetValuesByRule\<close>, on the pair of \<^verbatim>\<open>errs\<close> and
  \<^verbatim>\<open>values\<close>: an error is appended to \<^verbatim>\<open>errs\<close>, a nil value is skipped, a value is
  appended to \<^verbatim>\<open>values\<close>.
\<close>

definition commonFieldsStep ::
  "Library \<Rightarrow> Unstructured \<Rightarrow> JsonPath \<Rightarrow> error list \<times> FeedbackValue list
     \<Rightarrow> error list \<times> FeedbackValue list" where
  "commonFieldsStep L obj path acc =
     (case acc of (errs, values) \<Rightarrow>
        (case getValueByJsonPath L (jpName path) (jpPath path) obj of
           Inl err \<Rightarrow> (errs @ [err], values)
         | Inr None \<Rightarrow> (errs, values)
         | Inr (Some v) \<Rightarrow> (errs, values @ [v])))"

definition jsonPathsStep ::
  "Library \<Rightarrow> Unstructured \<Rightarrow> JsonPath \<Rightarrow> error list \<times> FeedbackValue list
     \<Rightarrow> error list \<times> FeedbackValue list" where
  "jsonPathsStep L obj path acc =
     (case acc of (errs, values) \<Rightarrow>
        if length (jpVersion path) \<noteq> 0 \<and> gvkVersion (objGroupVersionKind obj) \<noteq> jpVersion path
        then (errs @ [Errorf (''version set in the path '' @ jpName path
                              @ '' is not matched for the related resource'')], values)
        else commonFieldsStep L obj path (errs, values))"

definition GetValuesByRule ::
  "Library \<Rightarrow> StatusReader \<Rightarrow> Unstructured \<Rightarrow> StatusFeedbackRule
     \<Rightarrow> FeedbackValue list \<times> error option" where
  "GetValuesByRule L s obj rule =
     (if ruleType rule = CommonFieldsType then
        (let paths = CommonFieldsStatus s (objGroupVersionKind obj) in
         if length paths = 0 then
           ([], Some (Errorf (''cannot find the CommonFields statuses for resrouce with gvk ''
                              @ gvkString L (objGroupVersionKind obj))))
         else
           (case fold (commonFieldsStep L obj) paths ([], []) of
              (errs, values) \<Rightarrow> (values, NewAggregate errs)))
      else if ruleType rule = JSONPathsType then
        (case fold (jsonPathsStep L obj) (ruleJsonPaths rule) ([], []) of
           (errs, values) \<Rightarrow> (values, NewAggregate errs))
      else ([], NewAggregate []))"

section \<open>getSyncValues and buildAvailableStatusCondition\<close>

text \<open>
  The controller, by the collaborators its methods call. \<^verbatim>\<open>decodeUnstructured\<close> is a
  function of the repository that is not among the sources; with \<^verbatim>\<open>c.restMapper\<close> it
  maps a manifest to its resource and its decoded object, or fails. \<open>spokeGet\<close> is
  \<^verbatim>\<open>c.spokeDynamicClient.Resource(gvr).Namespace(ns).Get(ctx, name, opts)\<close>. \<open>statusReader\<close>
  is \<^verbatim>\<open>c.statusReader.GetValuesByRule\<close>, of the package \<^verbatim>\<open>statussync\<close>, which is not among
  the sources either. The types of a manifest, of a resource, of a rule and of a value are
  parameters.
\<close>

record ('m, 'gvr, 'r, 'v) StatusSyncController =
  decodeUnstructured :: "'m \<Rightarrow> error + ('gvr \<times> Unstructured)"
  spokeGet :: "'gvr \<Rightarrow> string \<Rightarrow> string \<Rightarrow> error + Unstructured"
  statusReader :: "Unstructured \<Rightarrow> 'r \<Rightarrow> 'v list \<times> error option"

text \<open>The body of the loop of \<^verbatim>\<open>getSyncValues\<close>, on the pair of \<^verbatim>\<open>errs\<close> and \<^verbatim>\<open>values\<close>.\<close>

definition syncValuesStep ::
  "(Unstructured \<Rightarrow> 'r \<Rightarrow> 'v list \<times> error option) \<Rightarrow> Unstructured \<Rightarrow> 'r
     \<Rightarrow> error list \<times> 'v list \<Rightarrow> error list \<times> 'v list" where
  "syncValuesStep reader obj rule acc =
     (case acc of (errs, values) \<Rightarrow>
        (case reader obj rule of (valuesByRule, err) \<Rightarrow>
           ((case err of Some e \<Rightarrow> errs @ [e] | None \<Rightarrow> errs),
            (if length valuesByRule > 0 then values @ valuesByRule else values))))"

definition getSyncValues ::
  "Library \<Rightarrow> (Unstructured \<Rightarrow> 'r \<Rightarrow> 'v list \<times> error option) \<Rightarrow> Unstructured \<Rightarrow> 'r list
     \<Rightarrow> 'v list \<times> Condition" where
  "getSyncValues L reader obj statusSyncRules =
     (case fold (syncValuesStep reader obj) statusSyncRules ([], []) of
        (errs, values) \<Rightarrow>
          (case NewAggregate errs of
             Some err \<Rightarrow>
               (values,
                \<lparr>Type = statusSyncConditionType, Status = ConditionFalse,
                 ObservedGeneration = 0, LastTransitionTime = 0,
                 Reason = ''StatusSyncFailed'',
                 Message = ''Sync status failed with error '' @ errorString L err\<rparr>)
           | None \<Rightarrow>
               if length values = 0 then
                 (values,
                  \<lparr>Type = statusSyncConditionType, Status = ConditionTrue,
                   ObservedGeneration = 0, LastTransitionTime = 0,
                   Reason = ''NoStatusSynced'', Message = []\<rparr>)
               else
                 (values,
                  \<lparr>Type = statusSyncConditionType, Status = ConditionTrue,
                   ObservedGeneration = 0, LastTransitionTime = 0,
                   Reason = ''StatusSynced'', Message = []\<rparr>)))"

text \<open>
  \<^verbatim>\<open>buildAvailableStatusCondition\<close> returns the object (nil on a failure), the
  condition and the error.
\<close>

definition buildAvailableStatusCondition ::
  "Library \<Rightarrow> ('m, 'gvr, 'r, 'v, 'z) StatusSyncController_scheme \<Rightarrow> 'm
     \<Rightarrow> Unstructured option \<times> Condition \<times> error option" where
  "buildAvailableStatusCondition L c manifest =
     (case decodeUnstructured c manifest of
        Inl err \<Rightarrow>
          (None,
           \<lparr>Type = resourceAvailableConditionType, Status = ConditionUnknown,
            ObservedGeneration = 0, LastTransitionTime = 0,
            Reason = ''IncompletedResourceMeta'', Message = ''Resource meta is incompleted''\<rparr>,
           Some err)
      | Inr (gvr, unstructuredObj) \<Rightarrow>
          (case spokeGet c gvr (objNamespace unstructuredObj) (objName unstructuredObj) of
             Inl err \<Rightarrow>
               if IsNotFound (Some err) then
                 (None,
                  \<lparr>Type = resourceAvailableConditionType, Status = ConditionFalse,
                   ObservedGeneration = 0, LastTransitionTime = 0,
                   Reason = ''ResourceNotAvailable'', Message = ''Resource is not available''\<rparr>,
                  Some err)
               else
                 (None,
                  \<lparr>Type = resourceAvailableConditionType, Status = ConditionUnknown,
                   ObservedGeneration = 0, LastTransitionTime = 0,
                   Reason = ''FetchingResourceFailed'',
                   Message = ''Failed to fetch resource: '' @ errorString L err\<rparr>,
                  Some err)
           | Inr obj \<Rightarrow>
               (Some obj,
                \<lparr>Type = resourceAvailableConditionType, Status = ConditionTrue,
                 ObservedGeneration = 0, LastTransitionTime = 0,
                 Reason = ''ResourceAvailable'', Message = ''Resource is available''\<rparr>,
                None)))"

section \<open>syncWork\<close>

text \<open>
  A \<^verbatim>\<open>Work\<close> by the fields the controllers read and write: the generation, the manifests
  of \<^verbatim>\<open>Spec.Workload\<close>, the manifest configurations of \<^verbatim>\<open>Spec.WorkloadConfig\<close>, and the
  status with its conditions and manifest conditions (the fields are \<open>WStatus\<close> and
  \<open>WorkConditions\<close> here, as \<open>Status\<close> and \<open>Conditions\<close> are fields of a condition and of a
  manifest condition). The declaration of a manifest configuration is not among the
  sources; it has the two fields that \<^verbatim>\<open>syncWork\<close> reads, \<^verbatim>\<open>ResourceIdentifier\<close> (with
  group, version and kind) and \<^verbatim>\<open>StatusSyncRules\<close>.
\<close>

record 'r ManifestConfig =
  ConfigIdentifier :: ResourceIdentifier
  StatusSyncRules :: "'r list"

record ('m, 'r) WorkSpec =
  Manifests :: "'m list"
  ManifestConfigs :: "'r ManifestConfig list"

record 'v WorkStatus =
  WorkConditions :: "Condition list"
  ManifestConditions :: "'v ManifestCondition list"

record ('m, 'r, 'v) Work =
  WorkName :: string
  Generation :: "64 word"
  Spec :: "('m, 'r) WorkSpec"
  WStatus :: "'v WorkStatus"

text \<open>
  Every call of \<^verbatim>\<open>meta.SetStatusCondition\<close> in a pass reads the clock on its own. A clock
  gives the reading for each place of a pass: the availability condition and the sync
  condition of the manifest at an index, and the condition of the work.
\<close>

datatype site = AvailableSite nat | SyncSite nat | WorkSite

text \<open>
  The inner loop of \<^verbatim>\<open>syncWork\<close>: the first manifest configuration whose group, version
  and kind are the object's, if any (the \<^verbatim>\<open>break\<close> leaves the loop there).
\<close>

definition matchingConfig ::
  "GroupVersionKind \<Rightarrow> 'r ManifestConfig list \<Rightarrow> 'r ManifestConfig option" where
  "matchingConfig gvk manifestConfigs =
     find (\<lambda>manifestConfig.
        Group (ConfigIdentifier manifestConfig) = gvkGroup gvk \<and>
        Version (ConfigIdentifier manifestConfig) = gvkVersion gvk \<and>
        Kind (ConfigIdentifier manifestConfig) = gvkKind gvk) manifestConfigs"

text \<open>
  The body of the outer loop, for the manifest at \<open>index\<close>, on the manifest conditions of
  the copied work. \<open>None\<close> is a panic: \<^verbatim>\<open>work.Status.ManifestConditions[index]\<close> with the
  index out of range, which Go evaluates after the call of
  \<^verbatim>\<open>buildAvailableStatusCondition\<close>, or the dereference of a nil object.
\<close>

definition syncManifest ::
  "Library \<Rightarrow> ('m, 'gvr, 'r, 'v, 'z) StatusSyncController_scheme \<Rightarrow> (site \<Rightarrow> Time)
     \<Rightarrow> 'r ManifestConfig list \<Rightarrow> nat \<Rightarrow> 'm \<Rightarrow> 'v ManifestCondition list
     \<Rightarrow> 'v ManifestCondition list option" where
  "syncManifest L c clock manifestConfigs index manifest mcs =
     (case buildAvailableStatusCondition L c manifest of
        (obj, availableStatusCondition, err) \<Rightarrow>
          if \<not> index < length mcs then None
          else
            (let mcs1 = mcs[index := (mcs ! index)\<lparr>Conditions :=
                   SetStatusCondition (Conditions (mcs ! index)) availableStatusCondition
                     (clock (AvailableSite index))\<rparr>]
             in case err of
                  Some e \<Rightarrow> Some mcs1
                | None \<Rightarrow>
                    (case obj of
                       None \<Rightarrow> None
                     | Some object \<Rightarrow>
                         (case matchingConfig (objGroupVersionKind object) manifestConfigs of
                            None \<Rightarrow> Some mcs1
                          | Some manifestConfig \<Rightarrow>
                              (case getSyncValues L (statusReader c) object
                                      (StatusSyncRules manifestConfig) of
                                 (values, statusSyncCondition) \<Rightarrow>
                                   Some (mcs1[index := (mcs1 ! index)\<lparr>Conditions :=
                                       SetStatusCondition (Conditions (mcs1 ! index))
                                         statusSyncCondition (clock (SyncSite index)),
                                     Values := values\<rparr>]))))))"

fun syncManifests ::
  "Library \<Rightarrow> ('m, 'gvr, 'r, 'v, 'z) StatusSyncController_scheme \<Rightarrow> (site \<Rightarrow> Time)
     \<Rightarrow> 'r ManifestConfig list \<Rightarrow> nat \<Rightarrow> 'm list \<Rightarrow> 'v ManifestCondition list
     \<Rightarrow> 'v ManifestCondition list option" where
  "syncManifests L c clock manifestConfigs index [] mcs = Some mcs"
| "syncManifests L c clock manifestConfigs index (manifest # manifests) mcs =
     (case syncManifest L c clock manifestConfigs index manifest mcs of
        None \<Rightarrow> None
      | Some mcs' \<Rightarrow> syncManifests L c clock manifestConfigs (Suc index) manifests mcs')"

text \<open>
  The status that a pass rebuilds on the copy of the work: the manifest conditions after
  the loop, and the conditions of the work with the aggregate set. \<open>None\<close> when the loop
  panics.
\<close>

definition rebuildStatus ::
  "Library \<Rightarrow> ('m, 'gvr, 'r, 'v, 'z) StatusSyncController_scheme \<Rightarrow> (site \<Rightarrow> Time)
     \<Rightarrow> ('m, 'r, 'v) Work \<Rightarrow> 'v WorkStatus option" where
  "rebuildStatus L c clock work =
     (case syncManifests L c clock (ManifestConfigs (Spec work)) 0 (Manifests (Spec work))
             (ManifestConditions (WStatus work)) of
        None \<Rightarrow> None
      | Some mcs \<Rightarrow>
          Some \<lparr>WorkConditions =
                  SetStatusCondition (WorkConditions (WStatus work))
                    (aggregateManifestConditions (Generation work) mcs) (clock WorkSite),
                ManifestConditions = mcs\<rparr>)"

text \<open>
  What a pass does with the work: it panics, it returns without a write (the rebuilt
  status equals the original one; \<^verbatim>\<open>equality.Semantic.DeepEqual\<close> is the equality of the
  model, where a nil slice and an empty slice are the same list), or it calls
  \<^verbatim>\<open>Status().Update\<close> with the work that carries the rebuilt status. \<open>Aborted\<close> is the
  return of the reconciler that gives up the pass and asks to be run again.
\<close>

datatype 'w outcome = Panic | Aborted | Unchanged | StatusUpdate 'w

definition syncWork ::
  "Library \<Rightarrow> ('m, 'gvr, 'r, 'v, 'z) StatusSyncController_scheme \<Rightarrow> (site \<Rightarrow> Time)
     \<Rightarrow> ('m, 'r, 'v) Work \<Rightarrow> ('m, 'r, 'v) Work outcome" where
  "syncWork L c clock originalWork =
     (case rebuildStatus L c clock originalWork of
        None \<Rightarrow> Panic
      | Some status \<Rightarrow>
          if WorkConditions (WStatus originalWork) = WorkConditions status \<and>
             ManifestConditions (WStatus originalWork) = ManifestConditions status
          then Unchanged
          else StatusUpdate (originalWork\<lparr>WStatus := status\<rparr>))"

section \<open>The reconciler of the status feedback\<close>

text \<open>
  A manifest of the feedback variant: the raw resource and the feedback rules, a slice
  that is nil (\<open>None\<close>) when the manifest has none. The reconciler has the collaborators
  of the controller; its status reader is the \<^verbatim>\<open>StatusReader\<close> above.
\<close>

record Manifest =
  RawExtension :: string
  StatusFeedbackRules :: "StatusFeedbackRule list option"

type_synonym 'gvr StatusFeedbackReconciler =
  "(Manifest, 'gvr, StatusFeedbackRule, FeedbackValue) StatusSyncController"

definition statusFeedbackConditionType :: string where
  "statusFeedbackConditionType = ''StatusFeedbackSynced''"

definition getFeedbackValues ::
  "Library \<Rightarrow> (Unstructured \<Rightarrow> 'r \<Rightarrow> 'v list \<times> error option) \<Rightarrow> Unstructured \<Rightarrow> 'r list
     \<Rightarrow> 'v list \<times> Condition" where
  "getFeedbackValues L reader obj statusFeedbackRules =
     (case fold (syncValuesStep reader obj) statusFeedbackRules ([], []) of
        (errs, values) \<Rightarrow>
          (case NewAggregate errs of
             Some err \<Rightarrow>
               (values,
                \<lparr>Type = statusFeedbackConditionType, Status = ConditionFalse,
                 ObservedGeneration = 0, LastTransitionTime = 0,
                 Reason = ''StatusFeedbackSyncFailed'',
                 Message = ''Sync status feedback failed with error '' @ errorString L err\<rparr>)
           | None \<Rightarrow>
               if length values = 0 then
                 (values,
                  \<lparr>Type = statusFeedbackConditionType, Status = ConditionTrue,
                   ObservedGeneration = 0, LastTransitionTime = 0,
                   Reason = ''NoStatusFeedbackSynced'', Message = []\<rparr>)
               else
                 (values,
                  \<lparr>Type = statusFeedbackConditionType, Status = ConditionTrue,
                   ObservedGeneration = 0, LastTransitionTime = 0,
                   Reason = ''StatusFeedbackSynced'', Message = []\<rparr>)))"

definition getResourceObject ::
  "('m, 'gvr, 'r, 'v, 'z) StatusSyncController_scheme \<Rightarrow> 'm \<Rightarrow> error + Unstructured" where
  "getResourceObject c manifest =
     (case decodeUnstructured c manifest of
        Inl err \<Rightarrow> Inl err
      | Inr (gvr, unstructuredObj) \<Rightarrow>
          spokeGet c gvr (objNamespace unstructuredObj) (objName unstructuredObj))"

text \<open>
  The inner loop of \<^verbatim>\<open>Reconcile\<close>: the first manifest condition whose identifier has the
  namespace, name, group, version and kind of the resource gets the condition and the
  values; the \<^verbatim>\<open>break\<close> leaves the others as they are.
\<close>

definition identifies :: "ResourceIdentifier \<Rightarrow> Unstructured \<Rightarrow> bool" where
  "identifies identifier resource =
     (Namespace identifier = objNamespace resource \<and> Name identifier = objName resource \<and>
      Group identifier = gvkGroup (objGroupVersionKind resource) \<and>
      Version identifier = gvkVersion (objGroupVersionKind resource) \<and>
      Kind identifier = gvkKind (objGroupVersionKind resource))"

fun setFeedback ::
  "Unstructured \<Rightarrow> Condition \<Rightarrow> Time \<Rightarrow> 'v list \<Rightarrow> 'v ManifestCondition list
     \<Rightarrow> 'v ManifestCondition list" where
  "setFeedback resource statusFeedbackCondition now values [] = []"
| "setFeedback resource statusFeedbackCondition now values (manifestCondition # mcs) =
     (if identifies (Identifier manifestCondition) resource then
        manifestCondition\<lparr>Conditions :=
            SetStatusCondition (Conditions manifestCondition) statusFeedbackCondition now,
          Values := values\<rparr> # mcs
      else manifestCondition # setFeedback resource statusFeedbackCondition now values mcs)"

text \<open>
  The body of the outer loop of \<^verbatim>\<open>Reconcile\<close> for the manifest at position \<open>index\<close>.
  \<open>None\<close> is the \<^verbatim>\<open>return\<close> inside the loop, taken when the resource cannot be fetched.
\<close>

definition feedbackManifest ::
  "Library \<Rightarrow> 'gvr StatusFeedbackReconciler \<Rightarrow> (site \<Rightarrow> Time) \<Rightarrow> nat \<Rightarrow> Manifest
     \<Rightarrow> FeedbackValue ManifestCondition list \<Rightarrow> FeedbackValue ManifestCondition list option" where
  "feedbackManifest L r clock index manifest mcs =
     (case StatusFeedbackRules manifest of
        None \<Rightarrow> Some mcs
      | Some rules \<Rightarrow>
          (case getResourceObject r manifest of
             Inl err \<Rightarrow> None
           | Inr resource \<Rightarrow>
               (case getFeedbackValues L (statusReader r) resource rules of
                  (values, statusFeedbackCondition) \<Rightarrow>
                    Some (setFeedback resource statusFeedbackCondition (clock (SyncSite index))
                            values mcs))))"

fun feedbackManifests ::
  "Library \<Rightarrow> 'gvr StatusFeedbackReconciler \<Rightarrow> (site \<Rightarrow> Time) \<Rightarrow> nat \<Rightarrow> Manifest list
     \<Rightarrow> FeedbackValue ManifestCondition list \<Rightarrow> FeedbackValue ManifestCondition list option" where
  "feedbackManifests L r clock index [] mcs = Some mcs"
| "feedbackManifests L r clock index (manifest # manifests) mcs =
     (case feedbackManifest L r clock index manifest mcs of
        None \<Rightarrow> None
      | Some mcs' \<Rightarrow> feedbackManifests L r clock (Suc index) manifests mcs')"

text \<open>
  \<^verbatim>\<open>Reconcile\<close> from the point where \<^verbatim>\<open>client.Get\<close> has returned the work: the status
  that the loop rebuilds on the copy of the work (\<open>None\<close> when the loop returns), and what
  the pass does with it. The loop does not touch the conditions of the work.
\<close>

definition rebuildFeedback ::
  "Library \<Rightarrow> 'gvr StatusFeedbackReconciler \<Rightarrow> (site \<Rightarrow> Time)
     \<Rightarrow> (Manifest, 'r, FeedbackValue) Work \<Rightarrow> FeedbackValue WorkStatus option" where
  "rebuildFeedback L r clock work =
     (case feedbackManifests L r clock 0 (Manifests (Spec work))
             (ManifestConditions (WStatus work)) of
        None \<Rightarrow> None
      | Some mcs \<Rightarrow> Some ((WStatus work)\<lparr>ManifestConditions := mcs\<rparr>))"

definition Reconcile ::
  "Library \<Rightarrow> 'gvr StatusFeedbackReconciler \<Rightarrow> (site \<Rightarrow> Time)
     \<Rightarrow> (Manifest, 'r, FeedbackValue) Work \<Rightarrow> (Manifest, 'r, FeedbackValue) Work outcome" where
  "Reconcile L r clock originalWork =
     (case rebuildFeedback L r clock originalWork of
        None \<Rightarrow> Aborted
      | Some status \<Rightarrow>
          if WorkConditions (WStatus originalWork) = WorkConditions status \<and>
             ManifestConditions (WStatus originalWork) = ManifestConditions status
          then Unchanged
          else StatusUpdate (originalWork\<lparr>WStatus := status\<rparr>))"

section \<open>A stand-in library and a small cluster for the examples\<close>

text \<open>
  The examples run the model on concrete collaborators. The stand-in for the JSON path
  library reads a template of the form \<^verbatim>\<open>{.a.b}\<close> as a chain of map keys: it refuses any
  other template, and on a content it gives the value under the keys as the one result,
  or no result where a key is missing.
\<close>

fun splitDots :: "string \<Rightarrow> string \<Rightarrow> string list" where
  "splitDots field [] = [field]"
| "splitDots field (c # cs) =
     (if c = CHR ''.'' then field # splitDots [] cs else splitDots (field @ [c]) cs)"

fun lookupKeys :: "string list \<Rightarrow> dynamic \<Rightarrow> dynamic option" where
  "lookupKeys [] d = Some d"
| "lookupKeys (k # ks) (DMap kvs) =
     (case map_of kvs k of None \<Rightarrow> None | Some d \<Rightarrow> lookupKeys ks d)"
| "lookupKeys (k # ks) _ = None"

definition exampleParse :: "string \<Rightarrow> error option" where
  "exampleParse template =
     (if take 2 template = ''{.'' \<and> drop (length template - 1) template = ''}''
      then None else Some (External False ''unrecognized template''))"

definition exampleFindResults :: "string \<Rightarrow> dynamic \<Rightarrow> error + dynamic list list" where
  "exampleFindResults template content =
     (case lookupKeys (splitDots [] (butlast (drop 2 template))) content of
        None \<Rightarrow> Inr [[]]
      | Some v \<Rightarrow> Inr [[v]])"

fun exampleErrorString :: "error \<Rightarrow> string" where
  "exampleErrorString (Errorf s) = s"
| "exampleErrorString (External notFound s) = s"
| "exampleErrorString (Aggregate errs) = ''several errors''"

definition exampleLibrary :: Library where
  "exampleLibrary =
     \<lparr>errorString = exampleErrorString,
      gvkString = (\<lambda>gvk. gvkGroup gvk @ ''/'' @ gvkVersion gvk @ '', Kind='' @ gvkKind gvk),
      typeString = (\<lambda>v. ''unsupported''),
      jsonpathParse = exampleParse,
      jsonpathFindResults = exampleFindResults\<rparr>"

text \<open>
  A manifest of the examples is the name of a deployment in the namespace \<^verbatim>\<open>default\<close>.
  The manifest \<^verbatim>\<open>broken\<close> cannot be decoded; the cluster has no deployment \<^verbatim>\<open>missing\<close>,
  fails to answer for \<^verbatim>\<open>slow\<close>, and holds every other deployment with three replicas,
  two of them ready.
\<close>

definition deployment :: "string \<Rightarrow> dynamic \<Rightarrow> Unstructured" where
  "deployment name content =
     \<lparr>objGroupVersionKind = \<lparr>gvkGroup = ''apps'', gvkVersion = ''v1'', gvkKind = ''Deployment''\<rparr>,
      objNamespace = ''default'', objName = name, objContent = content\<rparr>"

definition exampleContent :: dynamic where
  "exampleContent =
     DMap [(''status'', DMap [(''replicas'', DInt64 3), (''readyReplicas'', DInt64 2),
                              (''phase'', DString ''Running''), (''paused'', DBool False),
                              (''load'', DFloat64 0), (''observed'', DNil)])]"

definition exampleDecode :: "string \<Rightarrow> error + (unit \<times> Unstructured)" where
  "exampleDecode manifest =
     (if manifest = ''broken'' then Inl (External False ''no kind'')
      else Inr ((), deployment manifest DNil))"

definition exampleGet :: "unit \<Rightarrow> string \<Rightarrow> string \<Rightarrow> error + Unstructured" where
  "exampleGet gvr namespace name =
     (if name = ''missing'' then Inl (External True ''not found'')
      else if name = ''slow'' then Inl (External False ''timeout'')
      else Inr (deployment name exampleContent))"

definition exampleController ::
  "(string, unit, StatusFeedbackRule, FeedbackValue) StatusSyncController" where
  "exampleController =
     \<lparr>decodeUnstructured = exampleDecode, spokeGet = exampleGet,
      statusReader = GetValuesByRule exampleLibrary NewStatusReader\<rparr>"

definition exampleIdentifier :: "int \<Rightarrow> string \<Rightarrow> ResourceIdentifier" where
  "exampleIdentifier ordinal name =
     \<lparr>Ordinal = ordinal, Group = ''apps'', Version = ''v1'', Kind = ''Deployment'',
      Resource = ''deployments'', Namespace = ''default'', Name = name\<rparr>"

definition exampleRule :: StatusFeedbackRule where
  "exampleRule =
     \<lparr>ruleType = ''JSONPaths'',
      ruleJsonPaths =
        [\<lparr>jpName = ''replicas'', jpVersion = [], jpPath = ''.status.replicas''\<rparr>,
         \<lparr>jpName = ''all'', jpVersion = [], jpPath = ''.status''\<rparr>,
         \<lparr>jpName = ''phase'', jpVersion = ''v1'', jpPath = ''.status.phase''\<rparr>,
         \<lparr>jpName = ''old'', jpVersion = ''v1beta1'', jpPath = ''.status.phase''\<rparr>,
         \<lparr>jpName = ''none'', jpVersion = [], jpPath = ''.status.nothing''\<rparr>]\<rparr>"

text \<open>
  A work of the examples: the manifests \<^verbatim>\<open>missing\<close> and \<^verbatim>\<open>web\<close>, a manifest configuration
  for deployments that asks for the replicas, generation 5, and a manifest condition for
  each manifest, with no condition yet.
\<close>

definition exampleConfig :: "StatusFeedbackRule ManifestConfig" where
  "exampleConfig =
     \<lparr>ConfigIdentifier = exampleIdentifier 0 [],
      StatusSyncRules =
        [\<lparr>ruleType = ''JSONPaths'',
          ruleJsonPaths =
            [\<lparr>jpName = ''replicas'', jpVersion = [], jpPath = ''.status.replicas''\<rparr>]\<rparr>]\<rparr>"

definition exampleWork :: "(string, StatusFeedbackRule, FeedbackValue) Work" where
  "exampleWork =
     \<lparr>WorkName = ''work'', Generation = 5,
      Spec = \<lparr>Manifests = [''missing'', ''web''], ManifestConfigs = [exampleConfig]\<rparr>,
      WStatus =
        \<lparr>WorkConditions = [],
         ManifestConditions =
           [\<lparr>Identifier = exampleIdentifier 0 ''missing'', Conditions = [], Values = []\<rparr>,
            \<lparr>Identifier = exampleIdentifier 1 ''web'', Conditions = [], Values = []\<rparr>]\<rparr>\<rparr>"

text \<open>
  Two clocks, and the status that a pass rebuilds for the work of the examples: the
  deployment \<^verbatim>\<open>missing\<close> is not available, the deployment \<^verbatim>\<open>web\<close> is available and
  reports its replicas, and one of two resources is not available.
\<close>

definition exampleClock :: "site \<Rightarrow> Time" where
  "exampleClock s = 1"

definition laterClock :: "site \<Rightarrow> Time" where
  "laterClock s = 2"

definition exampleStatus :: "(site \<Rightarrow> Time) \<Rightarrow> FeedbackValue list \<Rightarrow> FeedbackValue WorkStatus" where
  "exampleStatus clock replicas =
     \<lparr>WorkConditions =
        [\<lparr>Type = ''Available'', Status = ''False'', ObservedGeneration = 5,
          LastTransitionTime = clock WorkSite, Reason = ''ResourcesNotAvailable'',
          Message = ''1 of 2 resources are not available''\<rparr>],
      ManifestConditions =
        [\<lparr>Identifier = exampleIdentifier 0 ''missing'',
          Conditions =
            [\<lparr>Type = ''Available'', Status = ''False'', ObservedGeneration = 0,
              LastTransitionTime = clock (AvailableSite 0), Reason = ''ResourceNotAvailable'',
              Message = ''Resource is not available''\<rparr>],
          Values = []\<rparr>,
         \<lparr>Identifier = exampleIdentifier 1 ''web'',
          Conditions =
            [\<lparr>Type = ''Available'', Status = ''True'', ObservedGeneration = 0,
              LastTransitionTime = clock (AvailableSite 1), Reason = ''ResourceAvailable'',
              Message = ''Resource is available''\<rparr>,
             \<lparr>Type = ''StatusSynced'', Status = ''True'', ObservedGeneration = 0,
              LastTransitionTime = clock (SyncSite 1), Reason = ''StatusSynced'',
              Message = []\<rparr>],
          Values = replicas\<rparr>]\<rparr>"

definition replicasValue :: "64 word \<Rightarrow> FeedbackValue" where
  "replicasValue n =
     \<lparr>fbName = ''replicas'',
      fbValue = \<lparr>fvType = ''Integer'', fvInteger = Some n, fvString = None,
                 fvBoolean = None\<rparr>\<rparr>"

text \<open>The cluster after the deployment \<^verbatim>\<open>web\<close> has been scaled to four replicas.\<close>

definition scaledContent :: dynamic where
  "scaledContent =
     DMap [(''status'', DMap [(''replicas'', DInt64 4), (''readyReplicas'', DInt64 2)])]"

definition scaledController ::
  "(string, unit, StatusFeedbackRule, FeedbackValue) StatusSyncController" where
  "scaledController =
     exampleController\<lparr>spokeGet := (\<lambda>gvr namespace name.
        if name = ''web'' then Inr (deployment name scaledContent)
        else exampleGet gvr namespace name)\<rparr>"

text \<open>
  The reconciler of the examples decodes the raw resource of a manifest as the controller
  of the examples decodes a manifest. In the first work both manifests have a feedback
  rule; the second names the deployment \<^verbatim>\<open>web\<close>. In the second work two manifests
  name the deployment \<^verbatim>\<open>web\<close>: the rule of the first asks for the replicas, the rule of
  the second for the whole status, which is a map.
\<close>

definition exampleReconciler :: "unit StatusFeedbackReconciler" where
  "exampleReconciler =
     \<lparr>decodeUnstructured = (\<lambda>manifest. exampleDecode (RawExtension manifest)),
      spokeGet = exampleGet,
      statusReader = GetValuesByRule exampleLibrary NewStatusReader\<rparr>"

definition replicasRule :: StatusFeedbackRule where
  "replicasRule =
     \<lparr>ruleType = ''JSONPaths'',
      ruleJsonPaths = [\<lparr>jpName = ''replicas'', jpVersion = [], jpPath = ''.status.replicas''\<rparr>]\<rparr>"

definition statusRule :: StatusFeedbackRule where
  "statusRule =
     \<lparr>ruleType = ''JSONPaths'',
      ruleJsonPaths = [\<lparr>jpName = ''status'', jpVersion = [], jpPath = ''.status''\<rparr>]\<rparr>"

definition feedbackWork :: "string \<Rightarrow> (Manifest, unit, FeedbackValue) Work" where
  "feedbackWork first =
     \<lparr>WorkName = ''work'', Generation = 5,
      Spec = \<lparr>Manifests =
                [\<lparr>RawExtension = first, StatusFeedbackRules = Some [replicasRule]\<rparr>,
                 \<lparr>RawExtension = ''web'', StatusFeedbackRules = Some [replicasRule]\<rparr>],
              ManifestConfigs = []\<rparr>,
      WStatus =
        \<lparr>WorkConditions = [],
         ManifestConditions =
           [\<lparr>Identifier = exampleIdentifier 0 first, Conditions = [], Values = []\<rparr>,
            \<lparr>Identifier = exampleIdentifier 1 ''web'', Conditions = [], Values = []\<rparr>]\<rparr>\<rparr>"

definition duplicateStatus :: "Time \<Rightarrow> FeedbackValue WorkStatus" where
  "duplicateStatus t =
     \<lparr>WorkConditions = [],
      ManifestConditions =
        [\<lparr>Identifier = exampleIdentifier 0 ''web'',
          Conditions =
            [\<lparr>Type = ''StatusFeedbackSynced'', Status = ''False'', ObservedGeneration = 0,
              LastTransitionTime = t, Reason = ''StatusFeedbackSyncFailed'',
              Message = ''Sync status feedback failed with error several errors''\<rparr>],
          Values = []\<rparr>]\<rparr>"

definition duplicateWork :: "FeedbackValue WorkStatus \<Rightarrow> (Manifest, unit, FeedbackValue) Work" where
  "duplicateWork status =
     \<lparr>WorkName = ''work'', Generation = 5,
      Spec = \<lparr>Manifests =
                [\<lparr>RawExtension = ''web'', StatusFeedbackRules = Some [replicasRule]\<rparr>,
                 \<lparr>RawExtension = ''web'', StatusFeedbackRules = Some [statusRule]\<rparr>],
              ManifestConfigs = []\<rparr>,
      WStatus = status\<rparr>"

text \<open>The work of the examples with a manifest condition for its first manifest only.\<close>

definition shortWork :: "(string, StatusFeedbackRule, FeedbackValue) Work" where
  "shortWork =
     exampleWork\<lparr>WStatus :=
       \<lparr>WorkConditions = [],
        ManifestConditions =
          [\<lparr>Identifier = exampleIdentifier 0 ''missing'', Conditions = [], Values = []\<rparr>]\<rparr>\<rparr>"

section \<open>The notions of the properties\<close>

text \<open>
  A path resolves to a list of results on an object when its template parses and
  \<^verbatim>\<open>FindResults\<close> returns that list. The first result is the first value of the first
  list, if there is one.
\<close>

definition resolvesTo :: "Library \<Rightarrow> string \<Rightarrow> Unstructured \<Rightarrow> dynamic list list \<Rightarrow> bool" where
  "resolvesTo L path obj results =
     (jsonpathParse L (''{'' @ path @ ''}'') = None \<and>
      jsonpathFindResults L (''{'' @ path @ ''}'') (objContent obj) = Inr results)"

definition firstResult :: "dynamic list list \<Rightarrow> dynamic option" where
  "firstResult results =
     (case results of [] \<Rightarrow> None | r # _ \<Rightarrow> (case r of [] \<Rightarrow> None | v # _ \<Rightarrow> Some v))"

text \<open>
  The errors and the values that a status reader returns for the rules of a list, in the
  order of the rules.
\<close>

definition ruleErrors ::
  "(Unstructured \<Rightarrow> 'r \<Rightarrow> 'v list \<times> error option) \<Rightarrow> Unstructured \<Rightarrow> 'r list \<Rightarrow> error list" where
  "ruleErrors reader obj rules = List.map_filter (\<lambda>rule. snd (reader obj rule)) rules"

definition ruleValues ::
  "(Unstructured \<Rightarrow> 'r \<Rightarrow> 'v list \<times> error option) \<Rightarrow> Unstructured \<Rightarrow> 'r list \<Rightarrow> 'v list" where
  "ruleValues reader obj rules = concat (map (\<lambda>rule. fst (reader obj rule)) rules)"

text \<open>
  What one path of a \<^verbatim>\<open>JSONPaths\<close> rule gives on an object: the error of a version that
  does not match, or what the extractor returns. Of a list of such outcomes, the values
  are those of the paths that gave one, and the errors those of the paths that failed.
\<close>

definition extractPath :: "Library \<Rightarrow> Unstructured \<Rightarrow> JsonPath \<Rightarrow> error + FeedbackValue option" where
  "extractPath L obj path =
     (if jpVersion path \<noteq> [] \<and> gvkVersion (objGroupVersionKind obj) \<noteq> jpVersion path
      then Inl (Errorf (''version set in the path '' @ jpName path
                        @ '' is not matched for the related resource''))
      else getValueByJsonPath L (jpName path) (jpPath path) obj)"

definition outcomeValues :: "(error + 'a option) list \<Rightarrow> 'a list" where
  "outcomeValues outcomes =
     List.map_filter (\<lambda>r. case r of Inr (Some v) \<Rightarrow> Some v | _ \<Rightarrow> None) outcomes"

definition outcomeErrors :: "(error + 'a option) list \<Rightarrow> error list" where
  "outcomeErrors outcomes =
     List.map_filter (\<lambda>r. case r of Inl e \<Rightarrow> Some e | _ \<Rightarrow> None) outcomes"

text \<open>
  What a pass of \<^verbatim>\<open>syncWork\<close> makes of the manifest condition of one manifest, taken on
  its own: the availability condition is set; when the object was fetched and a manifest
  configuration matches it, the sync condition is set as well and the values are
  replaced by the extracted ones.
\<close>

definition manifestResult ::
  "Library \<Rightarrow> ('m, 'gvr, 'r, 'v, 'z) StatusSyncController_scheme \<Rightarrow> (site \<Rightarrow> Time)
     \<Rightarrow> 'r ManifestConfig list \<Rightarrow> nat \<Rightarrow> 'm \<Rightarrow> 'v ManifestCondition
     \<Rightarrow> 'v ManifestCondition" where
  "manifestResult L c clock manifestConfigs index manifest mc =
     (case buildAvailableStatusCondition L c manifest of
        (obj, availableStatusCondition, err) \<Rightarrow>
          (let mc1 = mc\<lparr>Conditions :=
                 SetStatusCondition (Conditions mc) availableStatusCondition
                   (clock (AvailableSite index))\<rparr>
           in case obj of
                None \<Rightarrow> mc1
              | Some object \<Rightarrow>
                  (case matchingConfig (objGroupVersionKind object) manifestConfigs of
                     None \<Rightarrow> mc1
                   | Some manifestConfig \<Rightarrow>
                       (case getSyncValues L (statusReader c) object
                               (StatusSyncRules manifestConfig) of
                          (values, statusSyncCondition) \<Rightarrow>
                            mc1\<lparr>Conditions :=
                                SetStatusCondition (Conditions mc1) statusSyncCondition
                                  (clock (SyncSite index)),
                              Values := values\<rparr>))))"

text \<open>
  A list of conditions holds a condition when its first condition of that type has the
  status, the reason, the message and the observed generation of the condition.
\<close>

fun holds :: "Condition list \<Rightarrow> Condition \<Rightarrow> bool" where
  "holds [] a = False"
| "holds (c # conditions) a =
     (if Type c = Type a then
        Status c = Status a \<and> Reason c = Reason a \<and> Message c = Message a \<and>
        ObservedGeneration c = ObservedGeneration a
      else holds conditions a)"

text \<open>
  What the inner loop of \<^verbatim>\<open>Reconcile\<close> compares of a resource, and the resources that a
  pass of \<^verbatim>\<open>Reconcile\<close> fetches: those of the manifests that have feedback rules.
\<close>

definition resourceKey :: "Unstructured \<Rightarrow> string \<times> string \<times> string \<times> string \<times> string" where
  "resourceKey resource =
     (objNamespace resource, objName resource, gvkGroup (objGroupVersionKind resource),
      gvkVersion (objGroupVersionKind resource), gvkKind (objGroupVersionKind resource))"

definition fetchedResources ::
  "'gvr StatusFeedbackReconciler \<Rightarrow> Manifest list \<Rightarrow> Unstructured list" where
  "fetchedResources r manifests =
     List.map_filter (\<lambda>manifest.
        case StatusFeedbackRules manifest of
          None \<Rightarrow> None
        | Some rules \<Rightarrow>
            (case getResourceObject r manifest of Inl err \<Rightarrow> None | Inr resource \<Rightarrow> Some resource))
       manifests"

text \<open>
  What the claims call the counts: the number of conditions of type \<^verbatim>\<open>"Available"\<close> with
  a given status, over all manifests.
\<close>

definition availableWith :: "string \<Rightarrow> ('v, 'z) ManifestCondition_scheme list \<Rightarrow> nat" where
  "availableWith s manifests =
     length (filter (\<lambda>c. Type c = ''Available'' \<and> Status c = s) (concat (map Conditions manifests)))"

section \<open>Properties of the aggregation\<close>

lemma fold_countCondition:
  "fold countCondition cs (a, f, u) =
     (a + length (filter (\<lambda>c. Type c = ''Available'' \<and> Status c = ''True'') cs),
      f + length (filter (\<lambda>c. Type c = ''Available'' \<and> Status c = ''False'') cs),
      u + length (filter (\<lambda>c. Type c = ''Available'' \<and> Status c = ''Unknown'') cs))"
  by (induction cs arbitrary: a f u)
    (simp_all add: resourceAvailableConditionType_def ConditionTrue_def ConditionFalse_def
      ConditionUnknown_def)

lemma fold_countManifests:
  "fold (\<lambda>manifest acc. fold countCondition (Conditions manifest) acc) ms (a, f, u) =
     (a + availableWith ''True'' ms, f + availableWith ''False'' ms,
      u + availableWith ''Unknown'' ms)"
  by (induction ms arbitrary: a f u) (simp_all add: availableWith_def fold_countCondition)

lemma countManifests_eq:
  "countManifests ms =
     (availableWith ''True'' ms, availableWith ''False'' ms, availableWith ''Unknown'' ms)"
  by (simp add: countManifests_def fold_countManifests)

text \<open>
  C1. For every generation and every list of manifest conditions the aggregate is decided
  by the numbers of \<^verbatim>\<open>"Available"\<close> conditions with status False, Unknown and True, in this
  order: a positive False count gives False / ResourcesNotAvailable with the message
  "f of total resources are not available"; otherwise a positive Unknown count gives
  Unknown / ResourcesStatusUnknown with "u of total resources have unknown status";
  otherwise a zero True count (the empty list included) gives Unknown /
  ResourcesStatusUnknown with "cannot get any available resource"; otherwise True /
  ResourcesAvailable. The total is the number of manifests.
\<close>

theorem aggregate_precedence:
  "aggregateManifestConditions g ms =
     (if 0 < availableWith ''False'' ms then
        \<lparr>Type = ''Available'', Status = ''False'', ObservedGeneration = g,
         LastTransitionTime = 0, Reason = ''ResourcesNotAvailable'',
         Message = itoa (availableWith ''False'' ms) @ '' of '' @ itoa (length ms)
                   @ '' resources are not available''\<rparr>
      else if 0 < availableWith ''Unknown'' ms then
        \<lparr>Type = ''Available'', Status = ''Unknown'', ObservedGeneration = g,
         LastTransitionTime = 0, Reason = ''ResourcesStatusUnknown'',
         Message = itoa (availableWith ''Unknown'' ms) @ '' of '' @ itoa (length ms)
                   @ '' resources have unknown status''\<rparr>
      else if availableWith ''True'' ms = 0 then
        \<lparr>Type = ''Available'', Status = ''Unknown'', ObservedGeneration = g,
         LastTransitionTime = 0, Reason = ''ResourcesStatusUnknown'',
         Message = ''cannot get any available resource''\<rparr>
      else
        \<lparr>Type = ''Available'', Status = ''True'', ObservedGeneration = g,
         LastTransitionTime = 0, Reason = ''ResourcesAvailable'',
         Message = ''All resources are available''\<rparr>)"
  by (simp add: aggregateManifestConditions_def countManifests_eq
      resourceAvailableConditionType_def ConditionTrue_def ConditionFalse_def
      ConditionUnknown_def)


text \<open>
  The example of the specification: three manifests that are not available, available
  and of unknown status give "1 of 3 resources are not available".
\<close>

theorem aggregate_precedence_witness:
  "aggregateManifestConditions 7
     [\<lparr>Identifier = exampleIdentifier 0 ''a'', Conditions = [\<lparr>Type = ''Available'', Status = ''False'',
         ObservedGeneration = 0, LastTransitionTime = 1, Reason = ''ResourceNotAvailable'',
         Message = ''Resource is not available''\<rparr>], Values = ([] :: unit list)\<rparr>,
      \<lparr>Identifier = exampleIdentifier 1 ''b'', Conditions = [\<lparr>Type = ''Available'', Status = ''True'',
         ObservedGeneration = 0, LastTransitionTime = 1, Reason = ''ResourceAvailable'',
         Message = ''Resource is available''\<rparr>], Values = []\<rparr>,
      \<lparr>Identifier = exampleIdentifier 2 ''c'', Conditions = [\<lparr>Type = ''Available'', Status = ''Unknown'',
         ObservedGeneration = 0, LastTransitionTime = 1, Reason = ''FetchingResourceFailed'',
         Message = ''Failed to fetch resource: timeout''\<rparr>], Values = []\<rparr>] =
     \<lparr>Type = ''Available'', Status = ''False'', ObservedGeneration = 7,
      LastTransitionTime = 0, Reason = ''ResourcesNotAvailable'',
      Message = ''1 of 3 resources are not available''\<rparr>"
  by (subst aggregate_precedence) (simp add: availableWith_def itoa.simps)

section \<open>Properties of the value extractor\<close>

lemma firstResult_None:
  "firstResult results = None \<longleftrightarrow> length results = 0 \<or> length (results ! 0) = 0"
  by (auto simp: firstResult_def split: list.splits)

lemma firstResult_Some:
  "firstResult results = Some v \<Longrightarrow>
     \<not> (length results = 0 \<or> length (results ! 0) = 0) \<and> results ! 0 ! 0 = v"
  by (auto simp: firstResult_def split: list.splits)

lemmas example_defs =
  exampleLibrary_def exampleParse_def exampleFindResults_def deployment_def
  exampleContent_def exampleDecode_def exampleGet_def exampleController_def

text \<open>
  C2. When the path resolves and the first result is an \<^verbatim>\<open>int64\<close>, a \<^verbatim>\<open>string\<close> or a
  \<^verbatim>\<open>bool\<close>, the extractor returns the value under the given name with the matching
  discriminant and the payload unchanged. When it resolves to no result or to nil, the
  extractor returns no value and no error. When it resolves to a value of any other type,
  or when the template does not parse, the extractor returns an error and no value.
\<close>

theorem extract_cases:
  "(resolvesTo L path obj results \<longrightarrow>
      (firstResult results = None \<longrightarrow> getValueByJsonPath L name path obj = Inr None) \<and>
      (firstResult results = Some DNil \<longrightarrow> getValueByJsonPath L name path obj = Inr None) \<and>
      (\<forall>n. firstResult results = Some (DInt64 n) \<longrightarrow>
         getValueByJsonPath L name path obj =
           Inr (Some \<lparr>fbName = name, fbValue = \<lparr>fvType = ''Integer'', fvInteger = Some n,
                  fvString = None, fvBoolean = None\<rparr>\<rparr>)) \<and>
      (\<forall>s. firstResult results = Some (DString s) \<longrightarrow>
         getValueByJsonPath L name path obj =
           Inr (Some \<lparr>fbName = name, fbValue = \<lparr>fvType = ''String'', fvInteger = None,
                  fvString = Some s, fvBoolean = None\<rparr>\<rparr>)) \<and>
      (\<forall>b. firstResult results = Some (DBool b) \<longrightarrow>
         getValueByJsonPath L name path obj =
           Inr (Some \<lparr>fbName = name, fbValue = \<lparr>fvType = ''Boolean'', fvInteger = None,
                  fvString = None, fvBoolean = Some b\<rparr>\<rparr>)) \<and>
      (\<forall>v. firstResult results = Some v \<and>
           v \<noteq> DNil \<and> (\<forall>n. v \<noteq> DInt64 n) \<and> (\<forall>s. v \<noteq> DString s) \<and> (\<forall>b. v \<noteq> DBool b) \<longrightarrow>
         (\<exists>err. getValueByJsonPath L name path obj = Inl err))) \<and>
   (jsonpathParse L (''{'' @ path @ ''}'') \<noteq> None \<longrightarrow>
      (\<exists>err. getValueByJsonPath L name path obj = Inl err))"
proof -
  have parse_fails: "\<exists>err. getValueByJsonPath L name path obj = Inl err"
    if "jsonpathParse L (''{'' @ path @ ''}'') \<noteq> None"
    using that by (auto simp: getValueByJsonPath_def)
  have absent: "getValueByJsonPath L name path obj = Inr None"
    if "resolvesTo L path obj results" "firstResult results = None"
    using that by (simp add: getValueByJsonPath_def resolvesTo_def firstResult_None)
  have found: "getValueByJsonPath L name path obj =
      (case v of
         DNil \<Rightarrow> Inr None
       | DInt64 t \<Rightarrow> Inr (Some \<lparr>fbName = name, fbValue = \<lparr>fvType = ''Integer'',
           fvInteger = Some t, fvString = None, fvBoolean = None\<rparr>\<rparr>)
       | DString t \<Rightarrow> Inr (Some \<lparr>fbName = name, fbValue = \<lparr>fvType = ''String'',
           fvInteger = None, fvString = Some t, fvBoolean = None\<rparr>\<rparr>)
       | DBool t \<Rightarrow> Inr (Some \<lparr>fbName = name, fbValue = \<lparr>fvType = ''Boolean'',
           fvInteger = None, fvString = None, fvBoolean = Some t\<rparr>\<rparr>)
       | _ \<Rightarrow> Inl (Errorf (''the type '' @ typeString L v @ '' of the value for ''
                           @ name @ '' is not found'')))"
    if "resolvesTo L path obj results" "firstResult results = Some v" for v
    using that firstResult_Some [OF that(2)]
    by (simp add: getValueByJsonPath_def resolvesTo_def Integer_def String_def Boolean_def
        split: dynamic.splits)
  show ?thesis
  proof (intro conjI impI allI)
    fix v assume "resolvesTo L path obj results"
      and "firstResult results = Some v \<and>
           v \<noteq> DNil \<and> (\<forall>n. v \<noteq> DInt64 n) \<and> (\<forall>s. v \<noteq> DString s) \<and> (\<forall>b. v \<noteq> DBool b)"
    then show "\<exists>err. getValueByJsonPath L name path obj = Inl err"
      using found [of v] by (cases v) auto
  qed (use parse_fails absent found in \<open>simp_all\<close>)
qed


text \<open>The cases on the deployment of the examples.\<close>

theorem extract_cases_witness:
  "getValueByJsonPath exampleLibrary ''Replicas'' ''.status.replicas''
       (deployment ''web'' exampleContent) =
     Inr (Some \<lparr>fbName = ''Replicas'', fbValue = \<lparr>fvType = ''Integer'', fvInteger = Some 3,
            fvString = None, fvBoolean = None\<rparr>\<rparr>) \<and>
   getValueByJsonPath exampleLibrary ''Phase'' ''.status.phase''
       (deployment ''web'' exampleContent) =
     Inr (Some \<lparr>fbName = ''Phase'', fbValue = \<lparr>fvType = ''String'', fvInteger = None,
            fvString = Some ''Running'', fvBoolean = None\<rparr>\<rparr>) \<and>
   getValueByJsonPath exampleLibrary ''Paused'' ''.status.paused''
       (deployment ''web'' exampleContent) =
     Inr (Some \<lparr>fbName = ''Paused'', fbValue = \<lparr>fvType = ''Boolean'', fvInteger = None,
            fvString = None, fvBoolean = Some False\<rparr>\<rparr>) \<and>
   getValueByJsonPath exampleLibrary ''Gone'' ''.status.gone''
       (deployment ''web'' exampleContent) = Inr None \<and>
   getValueByJsonPath exampleLibrary ''Observed'' ''.status.observed''
       (deployment ''web'' exampleContent) = Inr None \<and>
   (\<exists>err. getValueByJsonPath exampleLibrary ''Status'' ''.status''
       (deployment ''web'' exampleContent) = Inl err) \<and>
   (\<exists>err. getValueByJsonPath exampleLibrary ''Status'' ''status''
       (deployment ''web'' exampleContent) = Inl err)"
proof -
  let ?web = "deployment ''web'' exampleContent"
  have r:
    "resolvesTo exampleLibrary ''.status.replicas'' ?web [[DInt64 3]]"
    "resolvesTo exampleLibrary ''.status.phase'' ?web [[DString ''Running'']]"
    "resolvesTo exampleLibrary ''.status.paused'' ?web [[DBool False]]"
    "resolvesTo exampleLibrary ''.status.gone'' ?web [[]]"
    "resolvesTo exampleLibrary ''.status.observed'' ?web [[DNil]]"
    "resolvesTo exampleLibrary ''.status'' ?web
       [[DMap [(''replicas'', DInt64 3), (''readyReplicas'', DInt64 2),
               (''phase'', DString ''Running''), (''paused'', DBool False),
               (''load'', DFloat64 0), (''observed'', DNil)]]]"
    "jsonpathParse exampleLibrary (''{'' @ ''status'' @ ''}'') \<noteq> None"
    by (simp_all add: resolvesTo_def example_defs)
  have c1: "getValueByJsonPath exampleLibrary ''Replicas'' ''.status.replicas'' ?web =
      Inr (Some \<lparr>fbName = ''Replicas'', fbValue = \<lparr>fvType = ''Integer'', fvInteger = Some 3,
            fvString = None, fvBoolean = None\<rparr>\<rparr>)"
    using extract_cases [of exampleLibrary "''.status.replicas''" ?web "[[DInt64 3]]" "''Replicas''"] r(1)
    by (auto simp: firstResult_def)
  have c2: "getValueByJsonPath exampleLibrary ''Phase'' ''.status.phase'' ?web =
      Inr (Some \<lparr>fbName = ''Phase'', fbValue = \<lparr>fvType = ''String'', fvInteger = None,
            fvString = Some ''Running'', fvBoolean = None\<rparr>\<rparr>)"
    using extract_cases [of exampleLibrary "''.status.phase''" ?web "[[DString ''Running'']]" "''Phase''"] r(2)
    by (auto simp: firstResult_def)
  have c3: "getValueByJsonPath exampleLibrary ''Paused'' ''.status.paused'' ?web =
      Inr (Some \<lparr>fbName = ''Paused'', fbValue = \<lparr>fvType = ''Boolean'', fvInteger = None,
            fvString = None, fvBoolean = Some False\<rparr>\<rparr>)"
    using extract_cases [of exampleLibrary "''.status.paused''" ?web "[[DBool False]]" "''Paused''"] r(3)
    by (auto simp: firstResult_def)
  have c4: "getValueByJsonPath exampleLibrary ''Gone'' ''.status.gone'' ?web = Inr None"
    using extract_cases [of exampleLibrary "''.status.gone''" ?web "[[]]" "''Gone''"] r(4)
    by (auto simp: firstResult_def)
  have c5: "getValueByJsonPath exampleLibrary ''Observed'' ''.status.observed'' ?web = Inr None"
    using extract_cases [of exampleLibrary "''.status.observed''" ?web "[[DNil]]" "''Observed''"] r(5)
    by (auto simp: firstResult_def)
  have c6: "\<exists>err. getValueByJsonPath exampleLibrary ''Status'' ''.status'' ?web = Inl err"
    using extract_cases [of exampleLibrary "''.status''" ?web
        "[[DMap [(''replicas'', DInt64 3), (''readyReplicas'', DInt64 2),
               (''phase'', DString ''Running''), (''paused'', DBool False),
               (''load'', DFloat64 0), (''observed'', DNil)]]]" "''Status''"] r(6)
    by (auto simp: firstResult_def)
  have c7: "\<exists>err. getValueByJsonPath exampleLibrary ''Status'' ''status'' ?web = Inl err"
    using extract_cases [of exampleLibrary "''status''" ?web "[]" "''Status''"] r(7)
    by blast
  from c1 c2 c3 c4 c5 c6 c7 show ?thesis by blast
qed


section \<open>Properties of the status readers\<close>

lemma exampleLibrary_simps:
  "errorString exampleLibrary = exampleErrorString"
  "jsonpathParse exampleLibrary = exampleParse"
  "jsonpathFindResults exampleLibrary = exampleFindResults"
  "typeString exampleLibrary v = ''unsupported''"
  "gvkString exampleLibrary gvk = gvkGroup gvk @ ''/'' @ gvkVersion gvk @ '', Kind='' @ gvkKind gvk"
  by (simp_all add: exampleLibrary_def)

lemma fold_syncValuesStep:
  "fold (syncValuesStep reader obj) rules (errs, vals) =
     (errs @ ruleErrors reader obj rules, vals @ ruleValues reader obj rules)"
  by (induction rules arbitrary: errs vals)
     (auto simp: syncValuesStep_def ruleErrors_def ruleValues_def split: prod.splits option.splits)

lemma fold_commonFieldsStep:
  "fold (commonFieldsStep L obj) paths (errs, vals) =
     (errs @ outcomeErrors (map (\<lambda>p. getValueByJsonPath L (jpName p) (jpPath p) obj) paths),
      vals @ outcomeValues (map (\<lambda>p. getValueByJsonPath L (jpName p) (jpPath p) obj) paths))"
  by (induction paths arbitrary: errs vals)
     (auto simp: commonFieldsStep_def outcomeErrors_def outcomeValues_def
        split: sum.splits option.splits)

lemma fold_jsonPathsStep:
  "fold (jsonPathsStep L obj) paths (errs, vals) =
     (errs @ outcomeErrors (map (extractPath L obj) paths),
      vals @ outcomeValues (map (extractPath L obj) paths))"
  by (induction paths arbitrary: errs vals)
     (auto simp: jsonPathsStep_def commonFieldsStep_def extractPath_def outcomeErrors_def
        outcomeValues_def split: sum.splits option.splits)

text \<open>
  C3. The values that \<^verbatim>\<open>getSyncValues\<close> returns are the values of all rules, whether or
  not a rule failed, and the condition is decided by the errors and the values: an error
  of any rule gives False / StatusSyncFailed with the text of the aggregate of the errors in
  the message; no error and no value gives True / NoStatusSynced; no error and a value
  gives True / StatusSynced. Inside a rule, \<^verbatim>\<open>GetValuesByRule\<close> returns the values of the
  paths that gave one together with the aggregate of the errors of the paths that
  failed: for the paths of a \<^verbatim>\<open>JSONPaths\<close> rule, and for the built-in paths of a
  \<^verbatim>\<open>CommonFields\<close> rule when the resolver has paths for the object.
\<close>

theorem sync_outcome:
  "getSyncValues L reader obj rules =
     (ruleValues reader obj rules,
      if ruleErrors reader obj rules \<noteq> [] then
        \<lparr>Type = ''StatusSynced'', Status = ''False'', ObservedGeneration = 0,
         LastTransitionTime = 0, Reason = ''StatusSyncFailed'',
         Message = ''Sync status failed with error ''
                   @ errorString L (Aggregate (ruleErrors reader obj rules))\<rparr>
      else if ruleValues reader obj rules = [] then
        \<lparr>Type = ''StatusSynced'', Status = ''True'', ObservedGeneration = 0,
         LastTransitionTime = 0, Reason = ''NoStatusSynced'', Message = []\<rparr>
      else
        \<lparr>Type = ''StatusSynced'', Status = ''True'', ObservedGeneration = 0,
         LastTransitionTime = 0, Reason = ''StatusSynced'', Message = []\<rparr>) \<and>
   (ruleType rule = ''JSONPaths'' \<longrightarrow>
      GetValuesByRule L s obj rule =
        (outcomeValues (map (extractPath L obj) (ruleJsonPaths rule)),
         NewAggregate (outcomeErrors (map (extractPath L obj) (ruleJsonPaths rule))))) \<and>
   (ruleType rule = ''CommonFields'' \<and> CommonFieldsStatus s (objGroupVersionKind obj) \<noteq> [] \<longrightarrow>
      GetValuesByRule L s obj rule =
        (outcomeValues (map (\<lambda>p. getValueByJsonPath L (jpName p) (jpPath p) obj)
           (CommonFieldsStatus s (objGroupVersionKind obj))),
         NewAggregate (outcomeErrors (map (\<lambda>p. getValueByJsonPath L (jpName p) (jpPath p) obj)
           (CommonFieldsStatus s (objGroupVersionKind obj))))))"
proof (intro conjI)
  show "getSyncValues L reader obj rules =
     (ruleValues reader obj rules,
      if ruleErrors reader obj rules \<noteq> [] then
        \<lparr>Type = ''StatusSynced'', Status = ''False'', ObservedGeneration = 0,
         LastTransitionTime = 0, Reason = ''StatusSyncFailed'',
         Message = ''Sync status failed with error ''
                   @ errorString L (Aggregate (ruleErrors reader obj rules))\<rparr>
      else if ruleValues reader obj rules = [] then
        \<lparr>Type = ''StatusSynced'', Status = ''True'', ObservedGeneration = 0,
         LastTransitionTime = 0, Reason = ''NoStatusSynced'', Message = []\<rparr>
      else
        \<lparr>Type = ''StatusSynced'', Status = ''True'', ObservedGeneration = 0,
         LastTransitionTime = 0, Reason = ''StatusSynced'', Message = []\<rparr>)"
    by (simp add: getSyncValues_def fold_syncValuesStep NewAggregate_def
        statusSyncConditionType_def ConditionTrue_def ConditionFalse_def)
next
  show "ruleType rule = ''JSONPaths'' \<longrightarrow>
      GetValuesByRule L s obj rule =
        (outcomeValues (map (extractPath L obj) (ruleJsonPaths rule)),
         NewAggregate (outcomeErrors (map (extractPath L obj) (ruleJsonPaths rule))))"
    by (simp add: GetValuesByRule_def CommonFieldsType_def JSONPathsType_def
        fold_jsonPathsStep)
next
  show "ruleType rule = ''CommonFields'' \<and> CommonFieldsStatus s (objGroupVersionKind obj) \<noteq> [] \<longrightarrow>
      GetValuesByRule L s obj rule =
        (outcomeValues (map (\<lambda>p. getValueByJsonPath L (jpName p) (jpPath p) obj)
           (CommonFieldsStatus s (objGroupVersionKind obj))),
         NewAggregate (outcomeErrors (map (\<lambda>p. getValueByJsonPath L (jpName p) (jpPath p) obj)
           (CommonFieldsStatus s (objGroupVersionKind obj)))))"
    by (simp add: GetValuesByRule_def CommonFieldsType_def Let_def fold_commonFieldsStep)
qed

text \<open>
  A rule with five paths on the deployment of the examples: two give a value, one
  resolves to a map, one names another version, one finds nothing. The two values are
  returned with the condition of the failure.
\<close>

lemma exampleRule_outcomes:
  "map (extractPath exampleLibrary (deployment ''web'' exampleContent)) (ruleJsonPaths exampleRule) =
     [Inr (Some \<lparr>fbName = ''replicas'', fbValue = \<lparr>fvType = ''Integer'',
         fvInteger = Some 3, fvString = None, fvBoolean = None\<rparr>\<rparr>),
      Inl (Errorf ''the type unsupported of the value for all is not found''),
      Inr (Some \<lparr>fbName = ''phase'', fbValue = \<lparr>fvType = ''String'', fvInteger = None,
         fvString = Some ''Running'', fvBoolean = None\<rparr>\<rparr>),
      Inl (Errorf ''version set in the path old is not matched for the related resource''),
      Inr None]"
  by (simp add: exampleRule_def extractPath_def getValueByJsonPath_def example_defs
      Integer_def String_def Boolean_def)

lemma commonFields_outcomes:
  "CommonFieldsStatus NewStatusReader (objGroupVersionKind (deployment ''web'' exampleContent)) =
     deploymentRule"
  "map (\<lambda>p. getValueByJsonPath exampleLibrary (jpName p) (jpPath p)
          (deployment ''web'' exampleContent)) deploymentRule =
     [Inr (Some \<lparr>fbName = ''ReadyReplicas'', fbValue = \<lparr>fvType = ''Integer'',
         fvInteger = Some 2, fvString = None, fvBoolean = None\<rparr>\<rparr>),
      Inr (Some \<lparr>fbName = ''Replicas'', fbValue = \<lparr>fvType = ''Integer'',
         fvInteger = Some 3, fvString = None, fvBoolean = None\<rparr>\<rparr>),
      Inr None]"
  by (simp_all add: NewStatusReader_def GetPathsByKind_def DefaultCommonFieldsStatusRule_def
      deploymentRule_def getValueByJsonPath_def example_defs Integer_def)

theorem sync_outcome_witness:
  "getSyncValues exampleLibrary (GetValuesByRule exampleLibrary NewStatusReader)
       (deployment ''web'' exampleContent) [exampleRule] =
     ([\<lparr>fbName = ''replicas'', fbValue = \<lparr>fvType = ''Integer'', fvInteger = Some 3,
          fvString = None, fvBoolean = None\<rparr>\<rparr>,
       \<lparr>fbName = ''phase'', fbValue = \<lparr>fvType = ''String'', fvInteger = None,
          fvString = Some ''Running'', fvBoolean = None\<rparr>\<rparr>],
      \<lparr>Type = ''StatusSynced'', Status = ''False'', ObservedGeneration = 0,
       LastTransitionTime = 0, Reason = ''StatusSyncFailed'',
       Message = ''Sync status failed with error several errors''\<rparr>) \<and>
   GetValuesByRule exampleLibrary NewStatusReader (deployment ''web'' exampleContent)
       \<lparr>ruleType = ''CommonFields'', ruleJsonPaths = []\<rparr> =
     ([\<lparr>fbName = ''ReadyReplicas'', fbValue = \<lparr>fvType = ''Integer'', fvInteger = Some 2,
          fvString = None, fvBoolean = None\<rparr>\<rparr>,
       \<lparr>fbName = ''Replicas'', fbValue = \<lparr>fvType = ''Integer'', fvInteger = Some 3,
          fvString = None, fvBoolean = None\<rparr>\<rparr>],
      None)"
proof -
  let ?web = "deployment ''web'' exampleContent"
  let ?reader = "GetValuesByRule exampleLibrary NewStatusReader"
  let ?common = "\<lparr>ruleType = ''CommonFields'', ruleJsonPaths = []\<rparr>"
  note outcome = sync_outcome [of exampleLibrary ?reader ?web "[exampleRule]" exampleRule NewStatusReader]
  have "ruleType exampleRule = ''JSONPaths''"
    by (simp add: exampleRule_def)
  with outcome have "?reader ?web exampleRule =
      (outcomeValues (map (extractPath exampleLibrary ?web) (ruleJsonPaths exampleRule)),
       NewAggregate (outcomeErrors (map (extractPath exampleLibrary ?web) (ruleJsonPaths exampleRule))))"
    by blast
  then have rule: "?reader ?web exampleRule =
      ([\<lparr>fbName = ''replicas'', fbValue = \<lparr>fvType = ''Integer'', fvInteger = Some 3,
          fvString = None, fvBoolean = None\<rparr>\<rparr>,
        \<lparr>fbName = ''phase'', fbValue = \<lparr>fvType = ''String'', fvInteger = None,
          fvString = Some ''Running'', fvBoolean = None\<rparr>\<rparr>],
       Some (Aggregate [Errorf ''the type unsupported of the value for all is not found'',
          Errorf ''version set in the path old is not matched for the related resource'']))"
    by (simp add: exampleRule_outcomes outcomeValues_def outcomeErrors_def NewAggregate_def)
  from outcome have "getSyncValues exampleLibrary ?reader ?web [exampleRule] =
     (ruleValues ?reader ?web [exampleRule],
      if ruleErrors ?reader ?web [exampleRule] \<noteq> [] then
        \<lparr>Type = ''StatusSynced'', Status = ''False'', ObservedGeneration = 0,
         LastTransitionTime = 0, Reason = ''StatusSyncFailed'',
         Message = ''Sync status failed with error ''
                   @ errorString exampleLibrary (Aggregate (ruleErrors ?reader ?web [exampleRule]))\<rparr>
      else if ruleValues ?reader ?web [exampleRule] = [] then
        \<lparr>Type = ''StatusSynced'', Status = ''True'', ObservedGeneration = 0,
         LastTransitionTime = 0, Reason = ''NoStatusSynced'', Message = []\<rparr>
      else
        \<lparr>Type = ''StatusSynced'', Status = ''True'', ObservedGeneration = 0,
         LastTransitionTime = 0, Reason = ''StatusSynced'', Message = []\<rparr>)"
    by (rule conjunct1)
  then have rules: "getSyncValues exampleLibrary ?reader ?web [exampleRule] =
     ([\<lparr>fbName = ''replicas'', fbValue = \<lparr>fvType = ''Integer'', fvInteger = Some 3,
          fvString = None, fvBoolean = None\<rparr>\<rparr>,
       \<lparr>fbName = ''phase'', fbValue = \<lparr>fvType = ''String'', fvInteger = None,
          fvString = Some ''Running'', fvBoolean = None\<rparr>\<rparr>],
      \<lparr>Type = ''StatusSynced'', Status = ''False'', ObservedGeneration = 0,
       LastTransitionTime = 0, Reason = ''StatusSyncFailed'',
       Message = ''Sync status failed with error several errors''\<rparr>)"
    by (simp add: ruleValues_def ruleErrors_def rule exampleLibrary_simps)
  have "ruleType ?common = ''CommonFields'' \<and>
      CommonFieldsStatus NewStatusReader (objGroupVersionKind ?web) \<noteq> []"
    by (simp add: commonFields_outcomes(1) deploymentRule_def)
  with sync_outcome [of exampleLibrary ?reader ?web "[exampleRule]" ?common NewStatusReader]
  have "?reader ?web ?common =
      (outcomeValues (map (\<lambda>p. getValueByJsonPath exampleLibrary (jpName p) (jpPath p) ?web)
         (CommonFieldsStatus NewStatusReader (objGroupVersionKind ?web))),
       NewAggregate (outcomeErrors (map (\<lambda>p. getValueByJsonPath exampleLibrary (jpName p) (jpPath p) ?web)
         (CommonFieldsStatus NewStatusReader (objGroupVersionKind ?web)))))"
    by blast
  then have common: "?reader ?web ?common =
     ([\<lparr>fbName = ''ReadyReplicas'', fbValue = \<lparr>fvType = ''Integer'', fvInteger = Some 2,
          fvString = None, fvBoolean = None\<rparr>\<rparr>,
       \<lparr>fbName = ''Replicas'', fbValue = \<lparr>fvType = ''Integer'', fvInteger = Some 3,
          fvString = None, fvBoolean = None\<rparr>\<rparr>],
      None)"
    by (simp add: commonFields_outcomes outcomeValues_def outcomeErrors_def NewAggregate_def)
  from rules common show ?thesis by (rule conjI)
qed

section \<open>Properties of buildAvailableStatusCondition\<close>

text \<open>
  C4. The four outcomes of \<^verbatim>\<open>buildAvailableStatusCondition\<close>. A manifest that cannot be
  decoded gives Unknown / IncompletedResourceMeta and the error of the decoding. A fetch
  that fails with a not-found error gives False / ResourceNotAvailable and that error;
  a fetch that fails otherwise gives Unknown / FetchingResourceFailed, the text of the
  error in the message, and that error. A fetch that succeeds gives the object, True /
  ResourceAvailable and no error. The error is nil exactly when the manifest is decoded
  and the fetch succeeds.
\<close>

theorem available_outcomes:
  "(\<forall>e. decodeUnstructured c manifest = Inl e \<longrightarrow>
      buildAvailableStatusCondition L c manifest =
        (None,
         \<lparr>Type = ''Available'', Status = ''Unknown'', ObservedGeneration = 0,
          LastTransitionTime = 0, Reason = ''IncompletedResourceMeta'',
          Message = ''Resource meta is incompleted''\<rparr>,
         Some e)) \<and>
   (\<forall>gvr u. decodeUnstructured c manifest = Inr (gvr, u) \<longrightarrow>
      (\<forall>e. spokeGet c gvr (objNamespace u) (objName u) = Inl e \<and> IsNotFound (Some e) \<longrightarrow>
         buildAvailableStatusCondition L c manifest =
           (None,
            \<lparr>Type = ''Available'', Status = ''False'', ObservedGeneration = 0,
             LastTransitionTime = 0, Reason = ''ResourceNotAvailable'',
             Message = ''Resource is not available''\<rparr>,
            Some e)) \<and>
      (\<forall>e. spokeGet c gvr (objNamespace u) (objName u) = Inl e \<and> \<not> IsNotFound (Some e) \<longrightarrow>
         buildAvailableStatusCondition L c manifest =
           (None,
            \<lparr>Type = ''Available'', Status = ''Unknown'', ObservedGeneration = 0,
             LastTransitionTime = 0, Reason = ''FetchingResourceFailed'',
             Message = ''Failed to fetch resource: '' @ errorString L e\<rparr>,
            Some e)) \<and>
      (\<forall>obj. spokeGet c gvr (objNamespace u) (objName u) = Inr obj \<longrightarrow>
         buildAvailableStatusCondition L c manifest =
           (Some obj,
            \<lparr>Type = ''Available'', Status = ''True'', ObservedGeneration = 0,
             LastTransitionTime = 0, Reason = ''ResourceAvailable'',
             Message = ''Resource is available''\<rparr>,
            None))) \<and>
   (snd (snd (buildAvailableStatusCondition L c manifest)) = None \<longleftrightarrow>
      (\<exists>gvr u obj. decodeUnstructured c manifest = Inr (gvr, u) \<and>
         spokeGet c gvr (objNamespace u) (objName u) = Inr obj))"
  by (auto simp: buildAvailableStatusCondition_def resourceAvailableConditionType_def
      ConditionTrue_def ConditionFalse_def ConditionUnknown_def split: sum.splits)

text \<open>The four outcomes on the cluster of the examples.\<close>

theorem available_outcomes_witness:
  "buildAvailableStatusCondition exampleLibrary exampleController ''broken'' =
     (None,
      \<lparr>Type = ''Available'', Status = ''Unknown'', ObservedGeneration = 0,
       LastTransitionTime = 0, Reason = ''IncompletedResourceMeta'',
       Message = ''Resource meta is incompleted''\<rparr>,
      Some (External False ''no kind'')) \<and>
   buildAvailableStatusCondition exampleLibrary exampleController ''missing'' =
     (None,
      \<lparr>Type = ''Available'', Status = ''False'', ObservedGeneration = 0,
       LastTransitionTime = 0, Reason = ''ResourceNotAvailable'',
       Message = ''Resource is not available''\<rparr>,
      Some (External True ''not found'')) \<and>
   buildAvailableStatusCondition exampleLibrary exampleController ''slow'' =
     (None,
      \<lparr>Type = ''Available'', Status = ''Unknown'', ObservedGeneration = 0,
       LastTransitionTime = 0, Reason = ''FetchingResourceFailed'',
       Message = ''Failed to fetch resource: timeout''\<rparr>,
      Some (External False ''timeout'')) \<and>
   buildAvailableStatusCondition exampleLibrary exampleController ''web'' =
     (Some (deployment ''web'' exampleContent),
      \<lparr>Type = ''Available'', Status = ''True'', ObservedGeneration = 0,
       LastTransitionTime = 0, Reason = ''ResourceAvailable'',
       Message = ''Resource is available''\<rparr>,
      None)"
proof -
  have d: "decodeUnstructured exampleController ''broken'' = Inl (External False ''no kind'')"
    "decodeUnstructured exampleController ''missing'' = Inr ((), deployment ''missing'' DNil)"
    "decodeUnstructured exampleController ''slow'' = Inr ((), deployment ''slow'' DNil)"
    "decodeUnstructured exampleController ''web'' = Inr ((), deployment ''web'' DNil)"
    by (simp_all add: exampleController_def exampleDecode_def)
  have g: "spokeGet exampleController () ''default'' ''missing'' = Inl (External True ''not found'')"
    "spokeGet exampleController () ''default'' ''slow'' = Inl (External False ''timeout'')"
    "spokeGet exampleController () ''default'' ''web'' = Inr (deployment ''web'' exampleContent)"
    by (simp_all add: exampleController_def exampleGet_def)
  have n: "objNamespace (deployment n DNil) = ''default''" "objName (deployment n DNil) = n" for n
    by (simp_all add: deployment_def)
  show ?thesis
    using available_outcomes [of exampleController "''broken''" exampleLibrary]
      available_outcomes [of exampleController "''missing''" exampleLibrary]
      available_outcomes [of exampleController "''slow''" exampleLibrary]
      available_outcomes [of exampleController "''web''" exampleLibrary]
    by (simp add: d g n exampleLibrary_simps)
qed

section \<open>Properties of the built-in rules\<close>

text \<open>
  C5. For an object whose group, version and kind are no key of the built-in table, a
  \<^verbatim>\<open>CommonFields\<close> rule gives no value and an error. For the deployment of \<^verbatim>\<open>apps/v1\<close>
  the table gives the three paths ReadyReplicas, Replicas and AvailableReplicas, in this
  order.
\<close>

theorem common_fields_resolution:
  "(objGroupVersionKind obj \<notin> fst ` set DefaultCommonFieldsStatusRule \<and>
    ruleType rule = ''CommonFields'' \<longrightarrow>
      GetValuesByRule L NewStatusReader obj rule =
        ([], Some (Errorf (''cannot find the CommonFields statuses for resrouce with gvk ''
                           @ gvkString L (objGroupVersionKind obj))))) \<and>
   GetPathsByKind DefaultCommonFieldsStatusRule
       \<lparr>gvkGroup = ''apps'', gvkVersion = ''v1'', gvkKind = ''Deployment''\<rparr> =
     [\<lparr>jpName = ''ReadyReplicas'', jpVersion = [], jpPath = ''.status.readyReplicas''\<rparr>,
      \<lparr>jpName = ''Replicas'', jpVersion = [], jpPath = ''.status.replicas''\<rparr>,
      \<lparr>jpName = ''AvailableReplicas'', jpVersion = [],
       jpPath = ''.status.availableReplicas''\<rparr>]"
proof -
  have "map_of DefaultCommonFieldsStatusRule (objGroupVersionKind obj) = None"
    if "objGroupVersionKind obj \<notin> fst ` set DefaultCommonFieldsStatusRule"
    using that by (simp add: map_of_eq_None_iff)
  then show ?thesis
    by (simp add: GetValuesByRule_def NewStatusReader_def GetPathsByKind_def
        CommonFieldsType_def) (simp add: DefaultCommonFieldsStatusRule_def deploymentRule_def)
qed



text \<open>A config map is no type of the table: the rule gives the error and no value.\<close>

theorem common_fields_resolution_witness:
  "GetValuesByRule exampleLibrary NewStatusReader
       \<lparr>objGroupVersionKind = \<lparr>gvkGroup = [], gvkVersion = ''v1'', gvkKind = ''ConfigMap''\<rparr>,
        objNamespace = ''default'', objName = ''settings'', objContent = DMap []\<rparr>
       \<lparr>ruleType = ''CommonFields'', ruleJsonPaths = []\<rparr> =
     ([], Some (Errorf
        ''cannot find the CommonFields statuses for resrouce with gvk /v1, Kind=ConfigMap''))"
  using common_fields_resolution [of
      "\<lparr>objGroupVersionKind = \<lparr>gvkGroup = [], gvkVersion = ''v1'', gvkKind = ''ConfigMap''\<rparr>,
        objNamespace = ''default'', objName = ''settings'', objContent = DMap []\<rparr>"
      "\<lparr>ruleType = ''CommonFields'', ruleJsonPaths = []\<rparr>" exampleLibrary]
  by (simp add: DefaultCommonFieldsStatusRule_def exampleLibrary_simps)

section \<open>Properties of a pass of syncWork\<close>

lemma Type_updateCondition [simp]: "Type (updateCondition c a t) = Type c"
  by (simp add: updateCondition_def Let_def)

lemma holds_SetStatusCondition: "holds (SetStatusCondition cs a t) a"
  by (induction cs) (simp_all add: updateCondition_def Let_def)

lemma SetStatusCondition_holds: "holds cs a \<Longrightarrow> SetStatusCondition cs a t = cs"
  by (induction cs) (simp_all add: updateCondition_def Let_def split: if_splits)

lemma holds_SetStatusCondition_other:
  "Type a \<noteq> Type s \<Longrightarrow> holds cs a \<Longrightarrow> holds (SetStatusCondition cs s t) a"
  by (induction cs) (auto simp: updateCondition_def Let_def split: if_splits)

lemma SetStatusCondition_twice:
  "SetStatusCondition (SetStatusCondition cs a t) a t' = SetStatusCondition cs a t"
  by (simp add: SetStatusCondition_holds holds_SetStatusCondition)

lemma SetStatusCondition_twice_other:
  "Type a \<noteq> Type s \<Longrightarrow> holds cs a \<Longrightarrow>
     SetStatusCondition (SetStatusCondition (SetStatusCondition cs s t) a t') s t'' =
       SetStatusCondition cs s t"
  by (simp add: SetStatusCondition_holds holds_SetStatusCondition holds_SetStatusCondition_other)

lemma build_obj_err:
  "buildAvailableStatusCondition L c manifest = (obj, a, err) \<Longrightarrow> (err = None) = (obj \<noteq> None)"
  by (auto simp: buildAvailableStatusCondition_def split: sum.splits prod.splits if_splits)

lemma build_Type:
  "buildAvailableStatusCondition L c manifest = (obj, a, err) \<Longrightarrow> Type a = ''Available''"
  by (auto simp: buildAvailableStatusCondition_def resourceAvailableConditionType_def
      split: sum.splits prod.splits if_splits)

lemma getSyncValues_Type:
  "getSyncValues L reader obj rules = (vs, s) \<Longrightarrow> Type s = ''StatusSynced''"
  by (auto simp: getSyncValues_def statusSyncConditionType_def
      split: prod.splits option.splits if_splits)

lemma syncManifest_eq:
  "syncManifest L c clock cfgs index manifest mcs =
     (if index < length mcs
      then Some (mcs[index := manifestResult L c clock cfgs index manifest (mcs ! index)])
      else None)"
proof -
  obtain obj a err where b: "buildAvailableStatusCondition L c manifest = (obj, a, err)"
    by (cases "buildAvailableStatusCondition L c manifest") auto
  from build_obj_err [OF b] show ?thesis
    by (cases obj; cases err)
      (auto simp: syncManifest_def manifestResult_def b Let_def split: option.splits prod.splits)
qed

lemma syncManifests_None:
  "syncManifests L c clock cfgs index manifests mcs = None \<longleftrightarrow>
     manifests \<noteq> [] \<and> length mcs < index + length manifests"
proof (induction manifests arbitrary: index mcs)
  case Nil
  then show ?case by simp
next
  case (Cons manifest manifests)
  show ?case
    by (cases "index < length mcs") (auto simp: syncManifest_eq Cons.IH)
qed

lemma syncManifests_Some:
  "syncManifests L c clock cfgs index manifests mcs = Some mcs' \<Longrightarrow>
     length mcs' = length mcs \<and>
     (\<forall>k < length mcs.
        mcs' ! k =
          (if index \<le> k \<and> k < index + length manifests
           then manifestResult L c clock cfgs k (manifests ! (k - index)) (mcs ! k)
           else mcs ! k))"
proof (induction manifests arbitrary: index mcs)
  case Nil
  then show ?case by auto
next
  case (Cons manifest manifests)
  from Cons.prems have i: "index < length mcs"
    by (auto simp: syncManifest_eq split: if_splits)
  let ?mcs1 = "mcs[index := manifestResult L c clock cfgs index manifest (mcs ! index)]"
  from Cons.prems i have "syncManifests L c clock cfgs (Suc index) manifests ?mcs1 = Some mcs'"
    by (simp add: syncManifest_eq)
  from Cons.IH [OF this] have len: "length mcs' = length mcs"
    and nth: "\<And>k. k < length mcs \<Longrightarrow> mcs' ! k =
          (if Suc index \<le> k \<and> k < Suc index + length manifests
           then manifestResult L c clock cfgs k (manifests ! (k - Suc index)) (?mcs1 ! k)
           else ?mcs1 ! k)"
    by simp_all
  show ?case
  proof (intro conjI allI impI)
    show "length mcs' = length mcs" by (rule len)
  next
    fix k assume k: "k < length mcs"
    show "mcs' ! k =
          (if index \<le> k \<and> k < index + length (manifest # manifests)
           then manifestResult L c clock cfgs k ((manifest # manifests) ! (k - index)) (mcs ! k)
           else mcs ! k)"
    proof (cases "k = index")
      case True
      with nth [OF k] i show ?thesis by simp
    next
      case False
      with nth [OF k] show ?thesis
        by (cases "index < k") (auto simp: nth_Cons' Suc_diff_Suc)
    qed
  qed
qed


lemma manifestResult_twice:
  "manifestResult L c clock' cfgs k m (manifestResult L c clock cfgs k m mc) =
     manifestResult L c clock cfgs k m mc"
proof -
  obtain obj a err where b: "buildAvailableStatusCondition L c m = (obj, a, err)"
    by (cases "buildAvailableStatusCondition L c m") auto
  note ta = build_Type [OF b]
  show ?thesis
  proof (cases obj)
    case None
    then show ?thesis
      by (simp add: manifestResult_def b SetStatusCondition_twice)
  next
    case (Some object)
    show ?thesis
    proof (cases "matchingConfig (objGroupVersionKind object) cfgs")
      case None
      with Some show ?thesis
        by (simp add: manifestResult_def b SetStatusCondition_twice)
    next
      case (Some cfg)
      obtain vs s where g: "getSyncValues L (statusReader c) object (StatusSyncRules cfg) = (vs, s)"
        by (cases "getSyncValues L (statusReader c) object (StatusSyncRules cfg)") auto
      from getSyncValues_Type [OF g] ta have ne: "Type a \<noteq> Type s"
        by simp
      have h: "holds (SetStatusCondition (Conditions mc) a t) a" for t
        by (rule holds_SetStatusCondition)
      from Some \<open>obj = Some object\<close> show ?thesis
        by (simp add: manifestResult_def b g SetStatusCondition_twice_other [OF ne h])
    qed
  qed
qed

lemma rebuildStatus_twice:
  assumes "rebuildStatus L c clock work = Some st"
  shows "rebuildStatus L c clock' (work\<lparr>WStatus := st\<rparr>) = Some st"
proof -
  let ?ms = "Manifests (Spec work)" and ?cfgs = "ManifestConfigs (Spec work)"
  let ?mcs = "ManifestConditions (WStatus work)"
  from assms obtain mcs1 where
    one: "syncManifests L c clock ?cfgs 0 ?ms ?mcs = Some mcs1"
    and st: "st = \<lparr>WorkConditions =
                  SetStatusCondition (WorkConditions (WStatus work))
                    (aggregateManifestConditions (Generation work) mcs1) (clock WorkSite),
                ManifestConditions = mcs1\<rparr>"
    by (auto simp: rebuildStatus_def split: option.splits)
  note first = syncManifests_Some [OF one]
  from one have enough: "length ?ms \<le> length ?mcs"
    using syncManifests_None [of L c clock ?cfgs 0 ?ms ?mcs] by (cases ?ms) auto
  with first have "syncManifests L c clock' ?cfgs 0 ?ms mcs1 \<noteq> None"
    by (simp add: syncManifests_None)
  then obtain mcs2 where two: "syncManifests L c clock' ?cfgs 0 ?ms mcs1 = Some mcs2"
    by auto
  note second = syncManifests_Some [OF two]
  have "mcs2 = mcs1"
  proof (rule nth_equalityI)
    show "length mcs2 = length mcs1"
      using second by simp
  next
    fix k assume "k < length mcs2"
    with first second have k: "k < length ?mcs" "k < length mcs1"
      by simp_all
    show "mcs2 ! k = mcs1 ! k"
      using first second k by (simp add: manifestResult_twice)
  qed
  with two st show ?thesis
    by (simp add: rebuildStatus_def SetStatusCondition_twice)
qed

text \<open>
  C10. \<^verbatim>\<open>syncWork\<close> indexes the manifest conditions by the positions of the manifests.
  When there are at least as many manifest conditions as manifests, no index is out of
  range and the pass does not panic. When there are fewer, the pass panics: the index of
  the first manifest without a manifest condition is out of range.
\<close>

theorem index_in_bounds:
  "(length (Manifests (Spec work)) \<le> length (ManifestConditions (WStatus work)) \<longrightarrow>
      syncWork L c clock work \<noteq> Panic) \<and>
   (length (ManifestConditions (WStatus work)) < length (Manifests (Spec work)) \<longrightarrow>
      syncWork L c clock work = Panic)"
proof -
  have "rebuildStatus L c clock work = None \<longleftrightarrow>
      length (ManifestConditions (WStatus work)) < length (Manifests (Spec work))"
    using syncManifests_None [of L c clock "ManifestConfigs (Spec work)" 0
        "Manifests (Spec work)" "ManifestConditions (WStatus work)"]
    by (cases "Manifests (Spec work)") (auto simp: rebuildStatus_def split: option.splits)
  then show ?thesis
    by (auto simp: syncWork_def split: option.splits)
qed


lemma holds_manifestResult_available:
  "holds (Conditions (manifestResult L c clock cfgs k m mc))
     (fst (snd (buildAvailableStatusCondition L c m)))"
proof -
  obtain obj a err where b: "buildAvailableStatusCondition L c m = (obj, a, err)"
    by (cases "buildAvailableStatusCondition L c m") auto
  have "holds (SetStatusCondition (SetStatusCondition (Conditions mc) a t) s t') a"
    if "getSyncValues L reader object rules = (vs, s)" for reader object rules vs s t t'
    using getSyncValues_Type [OF that] build_Type [OF b]
    by (intro holds_SetStatusCondition_other holds_SetStatusCondition) simp
  then show ?thesis
    by (auto simp: manifestResult_def b holds_SetStatusCondition Let_def
        split: option.splits prod.splits)
qed

lemma manifestResult_reports:
  assumes "buildAvailableStatusCondition L c m = (Some obj, a, None)"
    and "matchingConfig (objGroupVersionKind obj) cfgs = Some cfg"
  shows "Values (manifestResult L c clock cfgs k m mc) =
      fst (getSyncValues L (statusReader c) obj (StatusSyncRules cfg))"
    and "holds (Conditions (manifestResult L c clock cfgs k m mc))
      (snd (getSyncValues L (statusReader c) obj (StatusSyncRules cfg)))"
  using assms
  by (auto simp: manifestResult_def holds_SetStatusCondition Let_def split: prod.splits)

lemma manifestResult_unavailable:
  assumes "buildAvailableStatusCondition L c m = (None, a, err)"
  shows "manifestResult L c clock cfgs k m mc =
      mc\<lparr>Conditions := SetStatusCondition (Conditions mc) a (clock (AvailableSite k))\<rparr>"
  using assms by (simp add: manifestResult_def Let_def)

lemma rebuildStatus_Some:
  assumes "length (Manifests (Spec work)) \<le> length (ManifestConditions (WStatus work))"
  shows "\<exists>st. rebuildStatus L c clock work = Some st \<and>
      (\<forall>k < length (Manifests (Spec work)).
         ManifestConditions st ! k =
           manifestResult L c clock (ManifestConfigs (Spec work)) k (Manifests (Spec work) ! k)
             (ManifestConditions (WStatus work) ! k))"
proof -
  let ?ms = "Manifests (Spec work)" and ?cfgs = "ManifestConfigs (Spec work)"
  let ?mcs = "ManifestConditions (WStatus work)"
  from assms have "syncManifests L c clock ?cfgs 0 ?ms ?mcs \<noteq> None"
    by (simp add: syncManifests_None)
  then obtain mcs' where s: "syncManifests L c clock ?cfgs 0 ?ms ?mcs = Some mcs'"
    by auto
  from syncManifests_Some [OF s] assms show ?thesis
    by (simp add: rebuildStatus_def s)
qed

section \<open>Properties of a pass of Reconcile\<close>

lemma identifies_key:
  "identifies identifier r \<Longrightarrow> identifies identifier r' \<Longrightarrow> resourceKey r = resourceKey r'"
  by (simp add: identifies_def resourceKey_def)

lemma setFeedback_twice:
  "setFeedback r a t' vs (setFeedback r a t vs mcs) = setFeedback r a t vs mcs"
  by (induction mcs) (simp_all add: SetStatusCondition_twice)

lemma setFeedback_commute:
  "resourceKey r \<noteq> resourceKey r' \<Longrightarrow>
     setFeedback r a t vs (setFeedback r' a' t' vs' mcs) =
       setFeedback r' a' t' vs' (setFeedback r a t vs mcs)"
  by (induction mcs) (auto dest: identifies_key)

lemma fetchedResources_Cons:
  "fetchedResources rc (manifest # manifests) =
     (case StatusFeedbackRules manifest of
        None \<Rightarrow> fetchedResources rc manifests
      | Some rules \<Rightarrow>
          (case getResourceObject rc manifest of
             Inl err \<Rightarrow> fetchedResources rc manifests
           | Inr resource \<Rightarrow> resource # fetchedResources rc manifests))"
  by (simp add: fetchedResources_def split: option.splits sum.splits)

lemma feedbackManifests_commute:
  assumes "feedbackManifests L rc clock index manifests mcs = Some mcs'"
    and "\<forall>r' \<in> set (fetchedResources rc manifests). resourceKey r' \<noteq> resourceKey r"
  shows "feedbackManifests L rc clock index manifests (setFeedback r a t vs mcs) =
      Some (setFeedback r a t vs mcs')"
  using assms
proof (induction manifests arbitrary: index mcs)
  case Nil
  then show ?case by simp
next
  case (Cons manifest manifests)
  show ?case
  proof (cases "StatusFeedbackRules manifest")
    case None
    with Cons.prems have "feedbackManifests L rc clock (Suc index) manifests mcs = Some mcs'"
      and "\<forall>r' \<in> set (fetchedResources rc manifests). resourceKey r' \<noteq> resourceKey r"
      by (simp_all add: feedbackManifest_def fetchedResources_Cons)
    from Cons.IH [OF this] None show ?thesis
      by (simp add: feedbackManifest_def)
  next
    case (Some rules)
    with Cons.prems(1) obtain r' where get: "getResourceObject rc manifest = Inr r'"
      by (cases "getResourceObject rc manifest") (simp_all add: feedbackManifest_def)
    obtain vs' a' where fb: "getFeedbackValues L (statusReader rc) r' rules = (vs', a')"
      by (cases "getFeedbackValues L (statusReader rc) r' rules") auto
    let ?step = "setFeedback r' a' (clock (SyncSite index)) vs'"
    from Cons.prems Some get fb
    have rest: "feedbackManifests L rc clock (Suc index) manifests (?step mcs) = Some mcs'"
      and ne: "resourceKey r' \<noteq> resourceKey r"
      and others: "\<forall>r' \<in> set (fetchedResources rc manifests). resourceKey r' \<noteq> resourceKey r"
      by (simp_all add: feedbackManifest_def fetchedResources_Cons)
    from Cons.IH [OF rest others] Some get fb ne show ?thesis
      by (simp add: feedbackManifest_def setFeedback_commute [of r' r])
  qed
qed

lemma feedbackManifests_twice:
  assumes "feedbackManifests L rc clock index manifests mcs = Some mcs'"
    and "distinct (map resourceKey (fetchedResources rc manifests))"
  shows "feedbackManifests L rc clock' index manifests mcs' = Some mcs'"
  using assms
proof (induction manifests arbitrary: index mcs)
  case Nil
  then show ?case by simp
next
  case (Cons manifest manifests)
  show ?case
  proof (cases "StatusFeedbackRules manifest")
    case None
    with Cons.prems have "feedbackManifests L rc clock (Suc index) manifests mcs = Some mcs'"
      and "distinct (map resourceKey (fetchedResources rc manifests))"
      by (simp_all add: feedbackManifest_def fetchedResources_Cons)
    from Cons.IH [OF this] None show ?thesis
      by (simp add: feedbackManifest_def)
  next
    case (Some rules)
    with Cons.prems(1) obtain r where get: "getResourceObject rc manifest = Inr r"
      by (cases "getResourceObject rc manifest") (simp_all add: feedbackManifest_def)
    obtain vs a where fb: "getFeedbackValues L (statusReader rc) r rules = (vs, a)"
      by (cases "getFeedbackValues L (statusReader rc) r rules") auto
    let ?step = "setFeedback r a (clock (SyncSite index)) vs"
    let ?step' = "setFeedback r a (clock' (SyncSite index)) vs"
    from Cons.prems Some get fb
    have rest: "feedbackManifests L rc clock (Suc index) manifests (?step mcs) = Some mcs'"
      and nin: "resourceKey r \<notin> resourceKey ` set (fetchedResources rc manifests)"
      and dist: "distinct (map resourceKey (fetchedResources rc manifests))"
      by (simp_all add: feedbackManifest_def fetchedResources_Cons)
    from nin have others:
      "\<forall>r' \<in> set (fetchedResources rc manifests). resourceKey r' \<noteq> resourceKey r"
      by (metis imageI)
    from feedbackManifests_commute [OF rest others, of a "clock' (SyncSite index)" vs]
    have "?step' mcs' = mcs'"
      by (simp add: setFeedback_twice rest)
    with Cons.IH [OF rest dist] Some get fb show ?thesis
      by (simp add: feedbackManifest_def)
  qed
qed

lemma rebuildFeedback_twice:
  assumes "rebuildFeedback L rc clock work = Some st"
    and "distinct (map resourceKey (fetchedResources rc (Manifests (Spec work))))"
  shows "rebuildFeedback L rc clock' (work\<lparr>WStatus := st\<rparr>) = Some st"
proof -
  from assms(1) obtain mcs' where
    one: "feedbackManifests L rc clock 0 (Manifests (Spec work))
            (ManifestConditions (WStatus work)) = Some mcs'"
    and st: "st = (WStatus work)\<lparr>ManifestConditions := mcs'\<rparr>"
    by (auto simp: rebuildFeedback_def split: option.splits)
  from feedbackManifests_twice [OF one assms(2)] st show ?thesis
    by (simp add: rebuildFeedback_def)
qed


section \<open>The examples, evaluated\<close>

lemma build_examples:
  "buildAvailableStatusCondition exampleLibrary exampleController ''missing'' =
     (None,
      \<lparr>Type = ''Available'', Status = ''False'', ObservedGeneration = 0,
       LastTransitionTime = 0, Reason = ''ResourceNotAvailable'',
       Message = ''Resource is not available''\<rparr>,
      Some (External True ''not found''))"
  "buildAvailableStatusCondition exampleLibrary exampleController ''web'' =
     (Some (deployment ''web'' exampleContent),
      \<lparr>Type = ''Available'', Status = ''True'', ObservedGeneration = 0,
       LastTransitionTime = 0, Reason = ''ResourceAvailable'',
       Message = ''Resource is available''\<rparr>,
      None)"
  "buildAvailableStatusCondition exampleLibrary scaledController ''missing'' =
     (None,
      \<lparr>Type = ''Available'', Status = ''False'', ObservedGeneration = 0,
       LastTransitionTime = 0, Reason = ''ResourceNotAvailable'',
       Message = ''Resource is not available''\<rparr>,
      Some (External True ''not found''))"
  "buildAvailableStatusCondition exampleLibrary scaledController ''web'' =
     (Some (deployment ''web'' scaledContent),
      \<lparr>Type = ''Available'', Status = ''True'', ObservedGeneration = 0,
       LastTransitionTime = 0, Reason = ''ResourceAvailable'',
       Message = ''Resource is available''\<rparr>,
      None)"
  by (simp_all add: buildAvailableStatusCondition_def exampleController_def scaledController_def
      exampleDecode_def exampleGet_def deployment_def resourceAvailableConditionType_def
      ConditionTrue_def ConditionFalse_def ConditionUnknown_def)

lemma matching_example:
  "matchingConfig (objGroupVersionKind (deployment name content)) [exampleConfig] =
     Some exampleConfig"
  by (simp add: matchingConfig_def deployment_def exampleConfig_def exampleIdentifier_def)

lemma values_examples:
  "getSyncValues exampleLibrary (GetValuesByRule exampleLibrary NewStatusReader)
       (deployment ''web'' exampleContent) (StatusSyncRules exampleConfig) =
     ([replicasValue 3],
      \<lparr>Type = ''StatusSynced'', Status = ''True'', ObservedGeneration = 0,
       LastTransitionTime = 0, Reason = ''StatusSynced'', Message = []\<rparr>)"
  "getSyncValues exampleLibrary (GetValuesByRule exampleLibrary NewStatusReader)
       (deployment ''web'' scaledContent) (StatusSyncRules exampleConfig) =
     ([replicasValue 4],
      \<lparr>Type = ''StatusSynced'', Status = ''True'', ObservedGeneration = 0,
       LastTransitionTime = 0, Reason = ''StatusSynced'', Message = []\<rparr>)"
  by (simp_all add: getSyncValues_def syncValuesStep_def GetValuesByRule_def exampleConfig_def
      CommonFieldsType_def JSONPathsType_def jsonPathsStep_def commonFieldsStep_def
      getValueByJsonPath_def exampleLibrary_simps exampleParse_def exampleFindResults_def
      deployment_def exampleContent_def scaledContent_def NewAggregate_def Integer_def
      replicasValue_def statusSyncConditionType_def ConditionTrue_def)

lemma statusReader_examples:
  "statusReader exampleController = GetValuesByRule exampleLibrary NewStatusReader"
  "statusReader scaledController = GetValuesByRule exampleLibrary NewStatusReader"
  by (simp_all add: exampleController_def scaledController_def)

lemma aggregate_example:
  "aggregateManifestConditions 5 (ManifestConditions (exampleStatus clock vs)) =
     \<lparr>Type = ''Available'', Status = ''False'', ObservedGeneration = 5,
      LastTransitionTime = 0, Reason = ''ResourcesNotAvailable'',
      Message = ''1 of 2 resources are not available''\<rparr>"
  by (simp add: aggregateManifestConditions_def countManifests_eq availableWith_def
      exampleStatus_def itoa.simps resourceAvailableConditionType_def ConditionFalse_def)

lemma rebuild_exampleWork:
  "rebuildStatus exampleLibrary exampleController clock exampleWork =
     Some (exampleStatus clock [replicasValue 3])"
  "rebuildStatus exampleLibrary scaledController clock exampleWork =
     Some (exampleStatus clock [replicasValue 4])"
  unfolding rebuildStatus_def
  by (simp_all add: exampleWork_def syncManifest_def build_examples matching_example
      values_examples statusReader_examples)
     (simp_all add: aggregate_example [unfolded exampleStatus_def, simplified] exampleStatus_def)



lemma getResourceObject_examples:
  "getResourceObject exampleReconciler \<lparr>RawExtension = ''missing'', StatusFeedbackRules = rules\<rparr> =
     Inl (External True ''not found'')"
  "getResourceObject exampleReconciler \<lparr>RawExtension = ''web'', StatusFeedbackRules = rules\<rparr> =
     Inr (deployment ''web'' exampleContent)"
  "getResourceObject exampleReconciler \<lparr>RawExtension = ''api'', StatusFeedbackRules = rules\<rparr> =
     Inr (deployment ''api'' exampleContent)"
  by (simp_all add: getResourceObject_def exampleReconciler_def exampleDecode_def exampleGet_def
      deployment_def)

lemma feedback_examples:
  "getFeedbackValues exampleLibrary (GetValuesByRule exampleLibrary NewStatusReader)
       (deployment name exampleContent) [replicasRule] =
     ([replicasValue 3],
      \<lparr>Type = ''StatusFeedbackSynced'', Status = ''True'', ObservedGeneration = 0,
       LastTransitionTime = 0, Reason = ''StatusFeedbackSynced'', Message = []\<rparr>)"
  "getFeedbackValues exampleLibrary (GetValuesByRule exampleLibrary NewStatusReader)
       (deployment name exampleContent) [statusRule] =
     ([],
      \<lparr>Type = ''StatusFeedbackSynced'', Status = ''False'', ObservedGeneration = 0,
       LastTransitionTime = 0, Reason = ''StatusFeedbackSyncFailed'',
       Message = ''Sync status feedback failed with error several errors''\<rparr>)"
  by (simp_all add: getFeedbackValues_def syncValuesStep_def GetValuesByRule_def replicasRule_def
      statusRule_def CommonFieldsType_def JSONPathsType_def jsonPathsStep_def
      commonFieldsStep_def getValueByJsonPath_def exampleLibrary_simps exampleParse_def
      exampleFindResults_def deployment_def exampleContent_def NewAggregate_def Integer_def
      replicasValue_def statusFeedbackConditionType_def ConditionTrue_def ConditionFalse_def)

lemma identifies_examples:
  "identifies (exampleIdentifier n name) (deployment name' content) \<longleftrightarrow> name = name'"
  by (auto simp: identifies_def exampleIdentifier_def deployment_def)

lemma statusReader_exampleReconciler:
  "statusReader exampleReconciler = GetValuesByRule exampleLibrary NewStatusReader"
  by (simp add: exampleReconciler_def)

lemma rebuild_duplicateWork:
  "rebuildFeedback exampleLibrary exampleReconciler clock
       (duplicateWork \<lparr>WorkConditions = [], ManifestConditions =
          [\<lparr>Identifier = exampleIdentifier 0 ''web'', Conditions = [], Values = []\<rparr>]\<rparr>) =
     Some (duplicateStatus (clock (SyncSite 1)))"
  "rebuildFeedback exampleLibrary exampleReconciler clock (duplicateWork (duplicateStatus t)) =
     Some (duplicateStatus (clock (SyncSite 1)))"
  by (simp_all add: rebuildFeedback_def duplicateWork_def duplicateStatus_def feedbackManifest_def
      getResourceObject_examples feedback_examples identifies_examples
      statusReader_exampleReconciler updateCondition_def)


lemma rebuild_feedbackWork:
  "\<exists>st. rebuildFeedback exampleLibrary exampleReconciler clock (feedbackWork ''api'') = Some st"
  by (simp add: rebuildFeedback_def feedbackWork_def feedbackManifest_def
      getResourceObject_examples feedback_examples identifies_examples
      statusReader_exampleReconciler)

lemma fetched_feedbackWork:
  "fetchedResources exampleReconciler (Manifests (Spec (feedbackWork ''api''))) =
     [deployment ''api'' exampleContent, deployment ''web'' exampleContent]"
  by (simp add: fetchedResources_def feedbackWork_def getResourceObject_examples)

lemma rebuild_scaled:
  "rebuildStatus exampleLibrary scaledController clock
       (exampleWork\<lparr>WStatus := exampleStatus exampleClock [replicasValue 3]\<rparr>) =
     Some (exampleStatus exampleClock [replicasValue 4])"
  unfolding rebuildStatus_def
  by (simp add: exampleWork_def syncManifest_def build_examples matching_example
      values_examples statusReader_examples exampleStatus_def updateCondition_def)
     (simp add: aggregate_example [unfolded exampleStatus_def, simplified] updateCondition_def)

section \<open>The claims about a pass\<close>

text \<open>
  The bounds on the works of the examples: with a manifest condition for each of the two
  manifests the pass does not panic; with one manifest condition it does.
\<close>

theorem index_in_bounds_witness:
  "syncWork exampleLibrary exampleController exampleClock exampleWork \<noteq> Panic \<and>
   syncWork exampleLibrary exampleController exampleClock shortWork = Panic"
  using index_in_bounds [of exampleWork exampleLibrary exampleController exampleClock]
    index_in_bounds [of shortWork exampleLibrary exampleController exampleClock]
  by (simp add: exampleWork_def shortWork_def)

text \<open>
  C7, for \<^verbatim>\<open>syncWork\<close> on a work that has a manifest condition for each manifest. Let
  the fetch for the manifest at \<open>i\<close> fail. Then the pass rebuilds a status, and in it the
  manifest condition of every other manifest \<open>j\<close> is what the pass makes of that manifest
  on its own: its availability condition is set, and when its object was fetched and a
  manifest configuration matches, its values are the extracted ones and its sync
  condition is set. The manifest condition at \<open>i\<close> gets the availability condition
  and nothing else.
\<close>

theorem sibling_isolation:
  "length (Manifests (Spec work)) \<le> length (ManifestConditions (WStatus work)) \<and>
   i < length (Manifests (Spec work)) \<and> j < length (Manifests (Spec work)) \<and> i \<noteq> j \<and>
   buildAvailableStatusCondition L c (Manifests (Spec work) ! i) = (None, a, Some e) \<longrightarrow>
   (\<exists>st. rebuildStatus L c clock work = Some st \<and>
      ManifestConditions st ! j =
        manifestResult L c clock (ManifestConfigs (Spec work)) j (Manifests (Spec work) ! j)
          (ManifestConditions (WStatus work) ! j) \<and>
      holds (Conditions (ManifestConditions st ! j))
        (fst (snd (buildAvailableStatusCondition L c (Manifests (Spec work) ! j)))) \<and>
      (\<forall>obj aj cfg.
         buildAvailableStatusCondition L c (Manifests (Spec work) ! j) = (Some obj, aj, None) \<and>
         matchingConfig (objGroupVersionKind obj) (ManifestConfigs (Spec work)) = Some cfg \<longrightarrow>
         Values (ManifestConditions st ! j) =
           fst (getSyncValues L (statusReader c) obj (StatusSyncRules cfg)) \<and>
         holds (Conditions (ManifestConditions st ! j))
           (snd (getSyncValues L (statusReader c) obj (StatusSyncRules cfg)))) \<and>
      ManifestConditions st ! i =
        (ManifestConditions (WStatus work) ! i)\<lparr>Conditions :=
           SetStatusCondition (Conditions (ManifestConditions (WStatus work) ! i)) a
             (clock (AvailableSite i))\<rparr>)"
proof (intro impI, elim conjE)
  assume enough: "length (Manifests (Spec work)) \<le> length (ManifestConditions (WStatus work))"
    and i: "i < length (Manifests (Spec work))" and j: "j < length (Manifests (Spec work))"
    and fails: "buildAvailableStatusCondition L c (Manifests (Spec work) ! i) = (None, a, Some e)"
  from rebuildStatus_Some [OF enough] obtain st where
    st: "rebuildStatus L c clock work = Some st"
    and each: "\<And>k. k < length (Manifests (Spec work)) \<Longrightarrow>
         ManifestConditions st ! k =
           manifestResult L c clock (ManifestConfigs (Spec work)) k (Manifests (Spec work) ! k)
             (ManifestConditions (WStatus work) ! k)"
    by blast
  show "\<exists>st. rebuildStatus L c clock work = Some st \<and>
      ManifestConditions st ! j =
        manifestResult L c clock (ManifestConfigs (Spec work)) j (Manifests (Spec work) ! j)
          (ManifestConditions (WStatus work) ! j) \<and>
      holds (Conditions (ManifestConditions st ! j))
        (fst (snd (buildAvailableStatusCondition L c (Manifests (Spec work) ! j)))) \<and>
      (\<forall>obj aj cfg.
         buildAvailableStatusCondition L c (Manifests (Spec work) ! j) = (Some obj, aj, None) \<and>
         matchingConfig (objGroupVersionKind obj) (ManifestConfigs (Spec work)) = Some cfg \<longrightarrow>
         Values (ManifestConditions st ! j) =
           fst (getSyncValues L (statusReader c) obj (StatusSyncRules cfg)) \<and>
         holds (Conditions (ManifestConditions st ! j))
           (snd (getSyncValues L (statusReader c) obj (StatusSyncRules cfg)))) \<and>
      ManifestConditions st ! i =
        (ManifestConditions (WStatus work) ! i)\<lparr>Conditions :=
           SetStatusCondition (Conditions (ManifestConditions (WStatus work) ! i)) a
             (clock (AvailableSite i))\<rparr>"
    using st each [OF i] each [OF j] manifestResult_unavailable [OF fails]
    by (auto simp: holds_manifestResult_available manifestResult_reports)
qed

text \<open>
  On the work of the examples the deployment \<^verbatim>\<open>missing\<close> is not found, and the replicas
  of its sibling \<^verbatim>\<open>web\<close> are reported.
\<close>

theorem sibling_isolation_witness:
  "\<exists>st. rebuildStatus exampleLibrary exampleController exampleClock exampleWork = Some st \<and>
     Conditions (ManifestConditions st ! 0) =
       [\<lparr>Type = ''Available'', Status = ''False'', ObservedGeneration = 0,
         LastTransitionTime = 1, Reason = ''ResourceNotAvailable'',
         Message = ''Resource is not available''\<rparr>] \<and>
     Values (ManifestConditions st ! 0) = [] \<and>
     Values (ManifestConditions st ! 1) = [replicasValue 3] \<and>
     holds (Conditions (ManifestConditions st ! 1))
       \<lparr>Type = ''Available'', Status = ''True'', ObservedGeneration = 0,
        LastTransitionTime = 0, Reason = ''ResourceAvailable'',
        Message = ''Resource is available''\<rparr> \<and>
     holds (Conditions (ManifestConditions st ! 1))
       \<lparr>Type = ''StatusSynced'', Status = ''True'', ObservedGeneration = 0,
        LastTransitionTime = 0, Reason = ''StatusSynced'', Message = []\<rparr>"
proof -
  have w: "Manifests (Spec exampleWork) = [''missing'', ''web'']"
    "ManifestConfigs (Spec exampleWork) = [exampleConfig]"
    "ManifestConditions (WStatus exampleWork) =
       [\<lparr>Identifier = exampleIdentifier 0 ''missing'', Conditions = [], Values = []\<rparr>,
        \<lparr>Identifier = exampleIdentifier 1 ''web'', Conditions = [], Values = []\<rparr>]"
    by (simp_all add: exampleWork_def)
  let ?a = "\<lparr>Type = ''Available'', Status = ''False'', ObservedGeneration = 0,
       LastTransitionTime = 0, Reason = ''ResourceNotAvailable'',
       Message = ''Resource is not available''\<rparr>"
  from sibling_isolation [of exampleWork 0 1 exampleLibrary exampleController ?a
      "External True ''not found''" exampleClock]
  obtain st where st: "rebuildStatus exampleLibrary exampleController exampleClock exampleWork = Some st"
    and web: "holds (Conditions (ManifestConditions st ! 1))
        (fst (snd (buildAvailableStatusCondition exampleLibrary exampleController ''web'')))"
      "\<And>obj aj cfg.
         buildAvailableStatusCondition exampleLibrary exampleController ''web'' = (Some obj, aj, None) \<Longrightarrow>
         matchingConfig (objGroupVersionKind obj) [exampleConfig] = Some cfg \<Longrightarrow>
         Values (ManifestConditions st ! 1) =
           fst (getSyncValues exampleLibrary (statusReader exampleController) obj (StatusSyncRules cfg)) \<and>
         holds (Conditions (ManifestConditions st ! 1))
           (snd (getSyncValues exampleLibrary (statusReader exampleController) obj (StatusSyncRules cfg)))"
    and missing: "ManifestConditions st ! 0 =
        \<lparr>Identifier = exampleIdentifier 0 ''missing'',
         Conditions = SetStatusCondition [] ?a (exampleClock (AvailableSite 0)), Values = []\<rparr>"
    by (auto simp: w build_examples)
  from web(2) [OF build_examples(2) matching_example] web(1) missing st
  show ?thesis
    by (simp add: build_examples values_examples statusReader_examples exampleClock_def)
qed

text \<open>
  Where the isolation fails. The work with one manifest condition: the deployment
  \<^verbatim>\<open>missing\<close> is not found, its sibling \<^verbatim>\<open>web\<close> can be fetched, and \<^verbatim>\<open>syncWork\<close>
  panics at the index of the sibling, so no status is rebuilt. And \<^verbatim>\<open>Reconcile\<close>, on a work
  whose first manifest names the deployment \<^verbatim>\<open>missing\<close>, returns inside its loop: the
  sibling \<^verbatim>\<open>web\<close> is not processed and no status is rebuilt.
\<close>

theorem sibling_isolation_counterexample:
  "buildAvailableStatusCondition exampleLibrary exampleController (Manifests (Spec shortWork) ! 0) =
     (None,
      \<lparr>Type = ''Available'', Status = ''False'', ObservedGeneration = 0,
       LastTransitionTime = 0, Reason = ''ResourceNotAvailable'',
       Message = ''Resource is not available''\<rparr>,
      Some (External True ''not found'')) \<and>
   fst (buildAvailableStatusCondition exampleLibrary exampleController
          (Manifests (Spec shortWork) ! 1)) =
     Some (deployment ''web'' exampleContent) \<and>
   rebuildStatus exampleLibrary exampleController exampleClock shortWork = None \<and>
   syncWork exampleLibrary exampleController exampleClock shortWork = Panic \<and>
   getResourceObject exampleReconciler (Manifests (Spec (feedbackWork ''missing'')) ! 0) =
     Inl (External True ''not found'') \<and>
   getResourceObject exampleReconciler (Manifests (Spec (feedbackWork ''missing'')) ! 1) =
     Inr (deployment ''web'' exampleContent) \<and>
   rebuildFeedback exampleLibrary exampleReconciler exampleClock (feedbackWork ''missing'') = None \<and>
   Reconcile exampleLibrary exampleReconciler exampleClock (feedbackWork ''missing'') = Aborted"
proof -
  have "syncManifests exampleLibrary exampleController exampleClock
      (ManifestConfigs (Spec shortWork)) 0 (Manifests (Spec shortWork))
      (ManifestConditions (WStatus shortWork)) = None"
    by (subst syncManifests_None) (simp add: shortWork_def exampleWork_def)
  then have "rebuildStatus exampleLibrary exampleController exampleClock shortWork = None"
    by (simp add: rebuildStatus_def)
  then show ?thesis
    by (simp add: syncWork_def Reconcile_def rebuildFeedback_def feedbackWork_def
        feedbackManifest_def getResourceObject_examples)
      (simp add: shortWork_def exampleWork_def build_examples)
qed

text \<open>
  Where a pass is idempotent. A second pass against the same collaborators rebuilds the
  status that the first pass rebuilt and writes nothing, whatever the clocks of the two
  passes: for \<^verbatim>\<open>syncWork\<close> whenever the first pass rebuilds a status, and for
  \<^verbatim>\<open>Reconcile\<close> when moreover the resources fetched for the manifests with feedback
  rules differ pairwise in namespace, name, group, version or kind.
\<close>

theorem pass_idempotent:
  "(rebuildStatus L c clock work = Some st \<longrightarrow>
      rebuildStatus L c clock' (work\<lparr>WStatus := st\<rparr>) = Some st \<and>
      syncWork L c clock' (work\<lparr>WStatus := st\<rparr>) = Unchanged) \<and>
   (rebuildFeedback L r clock fwork = Some fstatus \<and>
    distinct (map resourceKey (fetchedResources r (Manifests (Spec fwork)))) \<longrightarrow>
      rebuildFeedback L r clock' (fwork\<lparr>WStatus := fstatus\<rparr>) = Some fstatus \<and>
      Reconcile L r clock' (fwork\<lparr>WStatus := fstatus\<rparr>) = Unchanged)"
proof (rule conjI; rule impI)
  assume first: "rebuildStatus L c clock work = Some st"
  from rebuildStatus_twice [OF first]
  show "rebuildStatus L c clock' (work\<lparr>WStatus := st\<rparr>) = Some st \<and>
      syncWork L c clock' (work\<lparr>WStatus := st\<rparr>) = Unchanged"
    by (simp add: syncWork_def)
next
  assume "rebuildFeedback L r clock fwork = Some fstatus \<and>
    distinct (map resourceKey (fetchedResources r (Manifests (Spec fwork))))"
  then have "rebuildFeedback L r clock' (fwork\<lparr>WStatus := fstatus\<rparr>) = Some fstatus"
    by (elim conjE) (rule rebuildFeedback_twice)
  then show "rebuildFeedback L r clock' (fwork\<lparr>WStatus := fstatus\<rparr>) = Some fstatus \<and>
      Reconcile L r clock' (fwork\<lparr>WStatus := fstatus\<rparr>) = Unchanged"
    by (simp add: Reconcile_def)
qed

text \<open>
  Both on works of the examples: the second pass of \<^verbatim>\<open>syncWork\<close> and the second pass of
  \<^verbatim>\<open>Reconcile\<close> leave the status unchanged.
\<close>

theorem pass_idempotent_witness:
  "syncWork exampleLibrary exampleController laterClock
       (exampleWork\<lparr>WStatus := exampleStatus exampleClock [replicasValue 3]\<rparr>) = Unchanged \<and>
   (\<exists>st. rebuildFeedback exampleLibrary exampleReconciler exampleClock (feedbackWork ''api'') =
           Some st \<and>
         Reconcile exampleLibrary exampleReconciler laterClock
           ((feedbackWork ''api'')\<lparr>WStatus := st\<rparr>) = Unchanged)"
proof -
  obtain st where
    st: "rebuildFeedback exampleLibrary exampleReconciler exampleClock (feedbackWork ''api'') = Some st"
    using rebuild_feedbackWork by blast
  have d: "distinct (map resourceKey
      (fetchedResources exampleReconciler (Manifests (Spec (feedbackWork ''api'')))))"
    by (simp add: fetched_feedbackWork resourceKey_def deployment_def)
  from pass_idempotent [of exampleLibrary exampleController exampleClock exampleWork
      "exampleStatus exampleClock [replicasValue 3]" laterClock exampleReconciler
      "feedbackWork ''api''" st]
    rebuild_exampleWork(1) [of exampleClock] st d
  show ?thesis by blast
qed

text \<open>
  C6 fails for \<^verbatim>\<open>Reconcile\<close> on a work with two manifests for one resource. Both name
  the deployment \<^verbatim>\<open>web\<close>; the rule of the first succeeds and the rule of the second
  fails. Every pass sets the feedback condition of the one manifest condition to True
  and then to False, which stamps the transition time anew: the second pass, run on the
  status that the first pass wrote, rebuilds a different status and writes again.
\<close>

theorem reconcile_not_idempotent:
  "Reconcile exampleLibrary exampleReconciler exampleClock
       (duplicateWork \<lparr>WorkConditions = [], ManifestConditions =
          [\<lparr>Identifier = exampleIdentifier 0 ''web'', Conditions = [], Values = []\<rparr>]\<rparr>) =
     StatusUpdate (duplicateWork (duplicateStatus 1)) \<and>
   rebuildFeedback exampleLibrary exampleReconciler laterClock (duplicateWork (duplicateStatus 1)) =
     Some (duplicateStatus 2) \<and>
   duplicateStatus 2 \<noteq> duplicateStatus 1 \<and>
   Reconcile exampleLibrary exampleReconciler laterClock (duplicateWork (duplicateStatus 1)) =
     StatusUpdate (duplicateWork (duplicateStatus 2))"
  by (simp add: Reconcile_def rebuild_duplicateWork exampleClock_def laterClock_def)
    (simp add: duplicateWork_def duplicateStatus_def)

text \<open>
  C9, as the code has it. The condition that \<^verbatim>\<open>aggregateManifestConditions\<close> returns
  carries the generation it is given, and a pass gives it the generation of the work. The
  condition that \<^verbatim>\<open>buildAvailableStatusCondition\<close> returns and the condition that
  \<^verbatim>\<open>getSyncValues\<close> returns carry the observed generation 0.
\<close>

theorem observed_generation:
  "ObservedGeneration (aggregateManifestConditions g ms) = g \<and>
   ObservedGeneration (fst (snd (buildAvailableStatusCondition L c m))) = 0 \<and>
   ObservedGeneration (snd (getSyncValues L reader obj rules)) = 0 \<and>
   (rebuildStatus L c clock work = Some st \<longrightarrow>
      WorkConditions st =
        SetStatusCondition (WorkConditions (WStatus work))
          (aggregateManifestConditions (Generation work) (ManifestConditions st))
          (clock WorkSite))"
proof -
  have "ObservedGeneration (aggregateManifestConditions g ms) = g"
    by (simp add: aggregateManifestConditions_def split: prod.splits)
  moreover have "ObservedGeneration (fst (snd (buildAvailableStatusCondition L c m))) = 0"
    by (simp add: buildAvailableStatusCondition_def split: sum.splits prod.splits)
  moreover have "ObservedGeneration (snd (getSyncValues L reader obj rules)) = 0"
    by (simp add: getSyncValues_def split: prod.splits option.splits)
  moreover have "WorkConditions st =
        SetStatusCondition (WorkConditions (WStatus work))
          (aggregateManifestConditions (Generation work) (ManifestConditions st))
          (clock WorkSite)" if "rebuildStatus L c clock work = Some st"
    using that by (auto simp: rebuildStatus_def split: option.splits)
  ultimately show ?thesis by blast
qed

text \<open>The condition of the work of the examples, set by the pass.\<close>

theorem observed_generation_witness:
  "WorkConditions (exampleStatus exampleClock [replicasValue 3]) =
     SetStatusCondition (WorkConditions (WStatus exampleWork))
       (aggregateManifestConditions (Generation exampleWork)
          (ManifestConditions (exampleStatus exampleClock [replicasValue 3])))
       (exampleClock WorkSite)"
  using observed_generation [of _ "[] :: unit ManifestCondition list" exampleLibrary
      exampleController "''web''" "\<lambda>obj rule. ([] :: unit list, None)"
      "deployment ''web'' exampleContent" "[] :: unit list" exampleClock exampleWork
      "exampleStatus exampleClock [replicasValue 3]"]
    rebuild_exampleWork(1) [of exampleClock]
  by blast

text \<open>
  The work of the examples has generation 5. The pass stamps the conditions of its two
  manifests with the observed generation 0.
\<close>

theorem generation_counterexample:
  "rebuildStatus exampleLibrary exampleController exampleClock exampleWork =
     Some (exampleStatus exampleClock [replicasValue 3]) \<and>
   Generation exampleWork = 5 \<and>
   map (\<lambda>mc. map ObservedGeneration (Conditions mc))
       (ManifestConditions (exampleStatus exampleClock [replicasValue 3])) = [[0], [0, 0]]"
  by (simp add: rebuild_exampleWork) (simp add: exampleWork_def exampleStatus_def)

text \<open>
  C8. \<^verbatim>\<open>syncWork\<close> reads no threshold and keeps no count of passes. On the work of the
  examples the first pass writes the status, the second pass finds it unchanged, and the
  third pass, run after the deployment \<^verbatim>\<open>web\<close> was scaled, extracts the new number of
  replicas and writes it.
\<close>

theorem sync_after_unchanged_passes:
  "syncWork exampleLibrary exampleController exampleClock exampleWork =
     StatusUpdate (exampleWork\<lparr>WStatus := exampleStatus exampleClock [replicasValue 3]\<rparr>) \<and>
   syncWork exampleLibrary exampleController laterClock
       (exampleWork\<lparr>WStatus := exampleStatus exampleClock [replicasValue 3]\<rparr>) = Unchanged \<and>
   syncWork exampleLibrary scaledController laterClock
       (exampleWork\<lparr>WStatus := exampleStatus exampleClock [replicasValue 3]\<rparr>) =
     StatusUpdate (exampleWork\<lparr>WStatus := exampleStatus exampleClock [replicasValue 4]\<rparr>)"
proof -
  have "syncWork exampleLibrary exampleController laterClock
       (exampleWork\<lparr>WStatus := exampleStatus exampleClock [replicasValue 3]\<rparr>) = Unchanged"
    using rebuildStatus_twice [OF rebuild_exampleWork(1) [of exampleClock], of laterClock]
    by (simp add: syncWork_def)
  moreover have "syncWork exampleLibrary exampleController exampleClock exampleWork =
     StatusUpdate (exampleWork\<lparr>WStatus := exampleStatus exampleClock [replicasValue 3]\<rparr>)"
    by (simp add: syncWork_def rebuild_exampleWork) (simp add: exampleWork_def exampleStatus_def)
  moreover have "syncWork exampleLibrary scaledController laterClock
       (exampleWork\<lparr>WStatus := exampleStatus exampleClock [replicasValue 3]\<rparr>) =
     StatusUpdate (exampleWork\<lparr>WStatus := exampleStatus exampleClock [replicasValue 4]\<rparr>)"
    by (simp add: syncWork_def rebuild_scaled) (simp add: exampleStatus_def replicasValue_def)
  ultimately show ?thesis by blast
qed

end
